theory Spec2Isabelle
  imports
    Complex_Main
    "HOL-Library.Char_ord"
    "HOL-Library.List_Lexorder"
    "HOL-Library.Sublist"
begin

section \<open>ArmourEye AI inference service: retrieval and correlation engine\<close>

text \<open>
  A shallow embedding of \<^verbatim>\<open>backend/ai/inference/server.py\<close> (the production
  profile) and of the search adapter and report builder of
  \<^verbatim>\<open>backend/ai/simple_rag_server.py\<close> (the simpler profile).

  Python strings are \<^typ>\<open>string\<close>: the UTF-8 bytes of the text, so that an
  operation that counts or classifies characters reads the encoding. Dictionaries read
  with \<^verbatim>\<open>.get\<close> are maps or records of optional fields, where \<open>None\<close> is the
  absent key; where the request schema admits a JSON \<^verbatim>\<open>null\<close> under a key that the
  code dereferences, the field is an \<open>entry\<close>, which tells the absent key from the
  null one. Exceptions are values of \<open>py_error\<close> on the left of a sum.
\<close>

subsection \<open>Python string helpers\<close>

datatype py_error =
    TypeError
  | ValueError
  | AttributeError
  | HTTPException int string
  | RuntimeError string

definition digit_char :: "nat \<Rightarrow> char" where
  "digit_char d = (''0123456789'' ! d)"

fun digits :: "nat \<Rightarrow> string" where
  "digits n = (if n < 10 then [digit_char n] else digits (n div 10) @ [digit_char (n mod 10)])"

declare digits.simps [simp del]

text \<open>\<^verbatim>\<open>str(i)\<close> for an integer.\<close>

definition py_str_int :: "int \<Rightarrow> string" where
  "py_str_int i = (if i < 0 then ''-'' @ digits (nat (- i)) else digits (nat i))"

definition py_str_nat :: "nat \<Rightarrow> string" where
  "py_str_nat n = digits n"

text \<open>\<^verbatim>\<open>sep.join(xs)\<close>.\<close>

fun py_join :: "string \<Rightarrow> string list \<Rightarrow> string" where
  "py_join sep [] = []"
| "py_join sep [x] = x"
| "py_join sep (x # y # ys) = x @ sep @ py_join sep (y # ys)"

text \<open>
  \<^verbatim>\<open>s.lower()\<close> on the ASCII letters. No character outside ASCII lowers to one of
  the letters of \<open>http\<close>, \<open>https\<close> or \<open>http-proxy\<close>, so membership in that
  set is decided as in Python.
\<close>

definition lower_char :: "char \<Rightarrow> char" where
  "lower_char c =
     (let n = (of_char c :: nat) in if 65 \<le> n \<and> n \<le> 90 then char_of (n + 32) else c)"

definition py_lower :: "string \<Rightarrow> string" where
  "py_lower s = map lower_char s"

text \<open>
  \<^verbatim>\<open>s.strip()\<close> removes the characters for which \<^verbatim>\<open>str.isspace\<close> holds, at
  both ends. Of one byte: U+0009 to U+000D, U+001C to U+0020. Of two bytes: U+0085 and
  U+00A0. Of three bytes: U+1680, U+2000 to U+200A, U+2028, U+2029, U+202F, U+205F and
  U+3000.
\<close>

definition is_space :: "char \<Rightarrow> bool" where
  "is_space c =
     (let n = (of_char c :: nat) in (9 \<le> n \<and> n \<le> 13) \<or> (28 \<le> n \<and> n \<le> 32))"

definition is_space2 :: "char \<Rightarrow> char \<Rightarrow> bool" where
  "is_space2 a b = (a = CHR 0xC2 \<and> (b = CHR 0x85 \<or> b = CHR 0xA0))"

definition is_space3 :: "char \<Rightarrow> char \<Rightarrow> char \<Rightarrow> bool" where
  "is_space3 a b c =
     ((a = CHR 0xE1 \<and> b = CHR 0x9A \<and> c = CHR 0x80)
      \<or> (a = CHR 0xE2 \<and> b = CHR 0x80 \<and>
          (let n = (of_char c :: nat)
           in (128 \<le> n \<and> n \<le> 138) \<or> n = 168 \<or> n = 169 \<or> n = 175))
      \<or> (a = CHR 0xE2 \<and> b = CHR 0x81 \<and> c = CHR 0x9F)
      \<or> (a = CHR 0xE3 \<and> b = CHR 0x80 \<and> c = CHR 0x80))"

fun lstrip :: "string \<Rightarrow> string" where
  "lstrip (a # b # c # rest) =
     (if is_space a then lstrip (b # c # rest)
      else if is_space2 a b then lstrip (c # rest)
      else if is_space3 a b c then lstrip rest
      else a # b # c # rest)"
| "lstrip [a, b] = (if is_space a then lstrip [b] else if is_space2 a b then [] else [a, b])"
| "lstrip [a] = (if is_space a then [] else [a])"
| "lstrip [] = []"

text \<open>The same from the end, on the reversed bytes.\<close>

fun rstrip_rev :: "string \<Rightarrow> string" where
  "rstrip_rev (c # b # a # rest) =
     (if is_space c then rstrip_rev (b # a # rest)
      else if is_space2 b c then rstrip_rev (a # rest)
      else if is_space3 a b c then rstrip_rev rest
      else c # b # a # rest)"
| "rstrip_rev [c, b] = (if is_space c then rstrip_rev [b] else if is_space2 b c then [] else [c, b])"
| "rstrip_rev [c] = (if is_space c then [] else [c])"
| "rstrip_rev [] = []"

definition py_strip :: "string \<Rightarrow> string" where
  "py_strip s = rev (rstrip_rev (rev (lstrip s)))"

text \<open>
  \<^verbatim>\<open>s[:n]\<close>: the first \<open>n\<close> characters. A byte from \<open>0x80\<close> to \<open>0xBF\<close>
  continues the character before it.
\<close>

definition is_continuation :: "char \<Rightarrow> bool" where
  "is_continuation c = (let n = (of_char c :: nat) in 128 \<le> n \<and> n < 192)"

fun take_chars :: "nat \<Rightarrow> string \<Rightarrow> string" where
  "take_chars n [] = []"
| "take_chars n (c # cs) =
     (if is_continuation c then c # take_chars n cs
      else (case n of 0 \<Rightarrow> [] | Suc m \<Rightarrow> c # take_chars m cs))"

text \<open>
  \<^verbatim>\<open>s.split(sep, 1)[-1]\<close> when \<^verbatim>\<open>sep in s\<close>: the text after the first
  occurrence of \<open>sep\<close>; \<open>None\<close> when \<open>sep\<close> does not occur.
\<close>

fun after_first :: "string \<Rightarrow> string \<Rightarrow> string option" where
  "after_first sep [] = (if sep = [] then Some [] else None)"
| "after_first sep (c # cs) =
     (if prefix sep (c # cs) then Some (drop (length sep) (c # cs)) else after_first sep cs)"

subsection \<open>Data model\<close>

text \<open>
  Decoded JSON, as \<^verbatim>\<open>json.loads\<close> returns it and as the request body carries
  its pass-through findings. No modelled operation looks inside such a value.
\<close>

datatype json =
    JNull
  | JBool bool
  | JNum int
  | JStr string
  | JArr "json list"
  | JObj "(string \<times> json) list"

text \<open>
  \<^verbatim>\<open>json.loads\<close> is a library function: it is a parameter of the model, \<open>None\<close>
  standing for a raised decoding error.
\<close>

type_synonym json_loads = "string \<Rightarrow> json option"

text \<open>A retrieved document: only its \<^verbatim>\<open>metadata\<close> mapping is read.\<close>

record doc =
  metadata :: "string \<rightharpoonup> string"

text \<open>The entries of \<^verbatim>\<open>context_list\<close> built by \<^verbatim>\<open>_format_docs\<close>.\<close>

record vuln =
  cve_id :: string
  severity :: "string option"
  cvss :: "string option"
  description :: "string option"
  exploits :: json
  fixes_links :: json

text \<open>
  A key of a request dictionary: absent, present with \<^verbatim>\<open>null\<close>, or present with a
  value of the shape the interface declares.
\<close>

datatype 'a entry = Absent | Null | Present 'a

text \<open>
  The runtime scanner input. \<^verbatim>\<open>PackageRuntime\<close> types \<^verbatim>\<open>network\<close> as an optional
  dictionary of anything, and \<^verbatim>\<open>runtime_defaults\<close> is a dictionary of anything, so
  \<^verbatim>\<open>network\<close>, \<^verbatim>\<open>open_ports\<close> and \<^verbatim>\<open>services\<close> may each be
  \<^verbatim>\<open>null\<close>. The three lists of findings are passed through unread: any JSON value,
  \<open>None\<close> for the absent key.
\<close>

record network_info =
  open_ports :: "int list entry"
  services :: "(string \<rightharpoonup> string) entry"

record runtime_data =
  rd_network :: "network_info entry"
  rd_web_vulnerabilities :: "json option"
  rd_database_issues :: "json option"
  rd_auth_weaknesses :: "json option"

text \<open>The dictionary returned by \<^verbatim>\<open>_build_runtime_context\<close>.\<close>

record runtime_context =
  is_exposed :: bool
  exposed_ports :: "int list"
  exposed_services :: "string list"
  web_vulnerabilities :: json
  database_issues :: json
  auth_weaknesses :: json
  exploitable_vulnerabilities :: "string list"

text \<open>The dictionary returned by \<^verbatim>\<open>_build_report\<close>.\<close>

record report =
  package :: string
  version :: string
  status :: string
  retrieved_docs_count :: nat
  unique_vuln_count :: nat
  severities_found :: "string list"
  all_vulnerabilities :: "vuln list"
  runtime_exposure :: runtime_context
  exploitable_count :: nat
  report_summary_text :: string
  found_in_database :: bool

subsection \<open>Document normalizer: \<^verbatim>\<open>_format_docs\<close>\<close>

text \<open>
  \<^verbatim>\<open>json.loads(metadata.get(key, "[]"))\<close> inside \<^verbatim>\<open>try\<close>, with
  \<^verbatim>\<open>[]\<close> on any exception.
\<close>

definition decode_links :: "json_loads \<Rightarrow> (string \<rightharpoonup> string) \<Rightarrow> string \<Rightarrow> json" where
  "decode_links jl md key =
     (case jl (case md key of None \<Rightarrow> ''[]'' | Some s \<Rightarrow> s) of
        None \<Rightarrow> JArr []
      | Some j \<Rightarrow> j)"

text \<open>The record appended for a document whose \<^verbatim>\<open>cve_id\<close> is \<open>c\<close>.\<close>

definition make_vuln :: "json_loads \<Rightarrow> string \<Rightarrow> doc \<Rightarrow> vuln" where
  "make_vuln jl c d =
     \<lparr> cve_id = c,
       severity = metadata d ''severity'',
       cvss = metadata d ''cvss'',
       description = metadata d ''description'',
       exploits = decode_links jl (metadata d) ''exploits_json'',
       fixes_links = decode_links jl (metadata d) ''fixes_json'' \<rparr>"

text \<open>
  The loop of \<^verbatim>\<open>_format_docs\<close>, with its two mutable variables
  \<^verbatim>\<open>context_list\<close> and \<^verbatim>\<open>seen_cves\<close> passed along.
\<close>

fun format_loop :: "json_loads \<Rightarrow> doc list \<Rightarrow> vuln list \<Rightarrow> string set \<Rightarrow> vuln list" where
  "format_loop jl [] context_list seen_cves = context_list"
| "format_loop jl (d # ds) context_list seen_cves =
     (case metadata d ''cve_id'' of
        None \<Rightarrow> format_loop jl ds context_list seen_cves
      | Some c \<Rightarrow>
          if c = [] \<or> c = ''N/A'' \<or> c \<in> seen_cves
          then format_loop jl ds context_list seen_cves
          else format_loop jl ds (context_list @ [make_vuln jl c d]) (insert c seen_cves))"

definition format_docs :: "json_loads \<Rightarrow> doc list \<Rightarrow> vuln list" where
  "format_docs jl docs = format_loop jl docs [] {}"

subsection \<open>Runtime exposure correlator: \<^verbatim>\<open>_build_runtime_context\<close>\<close>

definition web_service_names :: "string list" where
  "web_service_names = [''http'', ''https'', ''http-proxy'']"

text \<open>\<^verbatim>\<open>str(services.get(str(port), "")).lower() in {"http", "https", "http-proxy"}\<close>\<close>

definition is_web_port :: "(string \<rightharpoonup> string) \<Rightarrow> int \<Rightarrow> bool" where
  "is_web_port svc port =
     (py_lower (case svc (py_str_int port) of None \<Rightarrow> [] | Some s \<Rightarrow> s)
        \<in> set web_service_names)"

text \<open>\<^verbatim>\<open>services.get(str(port), "unknown")\<close>\<close>

definition service_name :: "(string \<rightharpoonup> string) \<Rightarrow> int \<Rightarrow> string" where
  "service_name svc port = (case svc (py_str_int port) of None \<Rightarrow> ''unknown'' | Some s \<Rightarrow> s)"

definition empty_runtime_data :: runtime_data where
  "empty_runtime_data =
     \<lparr> rd_network = Absent, rd_web_vulnerabilities = None,
       rd_database_issues = None, rd_auth_weaknesses = None \<rparr>"

text \<open>\<^verbatim>\<open>runtime_data or {}\<close>\<close>

definition runtime_or_empty :: "runtime_data option \<Rightarrow> runtime_data" where
  "runtime_or_empty runtime_data_opt =
     (case runtime_data_opt of None \<Rightarrow> empty_runtime_data | Some r \<Rightarrow> r)"

text \<open>
  \<^verbatim>\<open>network_info = runtime_data.get("network", {})\<close> and the first \<^verbatim>\<open>.get\<close> on it:
  the default stands for the absent key only, and \<^verbatim>\<open>None\<close> has no \<^verbatim>\<open>get\<close>.
\<close>

definition network_of :: "runtime_data \<Rightarrow> py_error + network_info" where
  "network_of runtime_data =
     (case rd_network runtime_data of
        Absent \<Rightarrow> Inr \<lparr> open_ports = Absent, services = Absent \<rparr>
      | Null \<Rightarrow> Inl AttributeError
      | Present n \<Rightarrow> Inr n)"

text \<open>\<^verbatim>\<open>network_info.get("services", {})\<close>, where it is a dictionary.\<close>

definition services_of :: "network_info \<Rightarrow> (string \<rightharpoonup> string)" where
  "services_of n = (case services n of Present svc \<Rightarrow> svc | _ \<Rightarrow> Map.empty)"

text \<open>
  The comprehension \<^verbatim>\<open>web_ports\<close>. Iterating \<^verbatim>\<open>None\<close> raises \<^verbatim>\<open>TypeError\<close>;
  \<^verbatim>\<open>services.get\<close> is called once for each port, so a \<^verbatim>\<open>null\<close> under
  \<^verbatim>\<open>services\<close> raises \<^verbatim>\<open>AttributeError\<close> when there is a port and is not
  touched when there is none.
\<close>

definition web_ports_of :: "network_info \<Rightarrow> py_error + int list" where
  "web_ports_of n =
     (case open_ports n of
        Absent \<Rightarrow> Inr []
      | Null \<Rightarrow> Inl TypeError
      | Present ports \<Rightarrow>
          (case services n of
             Null \<Rightarrow> if ports = [] then Inr [] else Inl AttributeError
           | _ \<Rightarrow> Inr (filter (is_web_port (services_of n)) ports)))"

definition build_runtime_context :: "runtime_data option \<Rightarrow> py_error + runtime_context" where
  "build_runtime_context runtime_data_opt =
     (let runtime_data = runtime_or_empty runtime_data_opt;
          context =
            \<lparr> is_exposed = False,
              exposed_ports = [],
              exposed_services = [],
              web_vulnerabilities =
                (case rd_web_vulnerabilities runtime_data of None \<Rightarrow> JArr [] | Some w \<Rightarrow> w),
              database_issues =
                (case rd_database_issues runtime_data of None \<Rightarrow> JArr [] | Some w \<Rightarrow> w),
              auth_weaknesses =
                (case rd_auth_weaknesses runtime_data of None \<Rightarrow> JArr [] | Some w \<Rightarrow> w),
              exploitable_vulnerabilities = [] \<rparr>
      in case network_of runtime_data of
           Inl exc \<Rightarrow> Inl exc
         | Inr network_info \<Rightarrow>
             (case web_ports_of network_info of
                Inl exc \<Rightarrow> Inl exc
              | Inr web_ports \<Rightarrow>
                  if web_ports \<noteq> []
                  then Inr (context \<lparr> is_exposed := True,
                                      exposed_ports := web_ports,
                                      exposed_services :=
                                        map (service_name (services_of network_info)) web_ports \<rparr>)
                  else Inr context))"

subsection \<open>Report synthesizer: \<^verbatim>\<open>_build_report\<close>\<close>

text \<open>\<^verbatim>\<open>getattr(doc, "metadata", {}).get("cve_id") == "N/A"\<close>\<close>

definition is_clean_doc :: "doc \<Rightarrow> bool" where
  "is_clean_doc d = (metadata d ''cve_id'' = Some ''N/A'')"

text \<open>
  \<^verbatim>\<open>sorted({item.get("severity", "UNKNOWN") for item in context_list if item.get("severity")})\<close>
\<close>

definition truthy_severities :: "vuln list \<Rightarrow> string list" where
  "truthy_severities context_list =
     List.map_filter
       (\<lambda>item. case severity item of
                  None \<Rightarrow> None
                | Some s \<Rightarrow> if s \<noteq> [] then Some s else None)
       context_list"

definition sorted_severities :: "vuln list \<Rightarrow> string list" where
  "sorted_severities context_list = sorted_list_of_set (set (truthy_severities context_list))"

text \<open>
  \<^verbatim>\<open>[vuln.get("cve_id") for vuln in context_list if vuln.get("severity") in {"CRITICAL", "HIGH"}]\<close>
\<close>

definition critical_or_high :: "vuln \<Rightarrow> bool" where
  "critical_or_high v = (severity v = Some ''CRITICAL'' \<or> severity v = Some ''HIGH'')"

definition exploitable_of :: "vuln list \<Rightarrow> string list" where
  "exploitable_of context_list = map cve_id (filter critical_or_high context_list)"

definition em_dash :: string where
  "em_dash = [CHR 0xE2, CHR 0x80, CHR 0x94]"

definition warning_sign :: string where
  "warning_sign = [CHR 0xE2, CHR 0x9A, CHR 0xA0, CHR 0xEF, CHR 0xB8, CHR 0x8F]"

definition summary_text :: "string \<Rightarrow> string \<Rightarrow> string \<Rightarrow> nat \<Rightarrow> string list \<Rightarrow> string list \<Rightarrow> string" where
  "summary_text pkg ver st vuln_count severities exploitable_vulns =
     (if st = ''CLEAN'' then
        ''Good news! '' @ pkg @ ''@'' @ ver @ '' looks safe '' @ em_dash
          @ '' no known vulnerabilities found.''
      else if st = ''VULNERABLE'' then
        (let sev_text =
               (if severities \<noteq> [] then '' ('' @ py_join '', '' severities @ '' severity)''
                else []);
             exploit_text =
               (if exploitable_vulns \<noteq> []
                then '' '' @ warning_sign @ '' '' @ py_str_nat (length exploitable_vulns)
                       @ '' could be exploited since ports are exposed.''
                else [])
         in pkg @ ''@'' @ ver @ '' has '' @ py_str_nat vuln_count @ '' known issue''
              @ (if vuln_count \<noteq> 1 then ''s'' else []) @ sev_text @ ''.'' @ exploit_text
              @ '' Consider updating to a patched version.'')
      else
        pkg @ ''@'' @ ver @ '' wasn't found in our vulnerability database.''
          @ '' This is likely a system package or internal dependency.'')"

text \<open>
  The body of \<^verbatim>\<open>_build_report\<close> around its call of \<^verbatim>\<open>_build_runtime_context\<close>
  (line 167), whose result is the last argument. Nothing in it raises.
\<close>

definition report_with ::
  "json_loads \<Rightarrow> string \<Rightarrow> string \<Rightarrow> doc list \<Rightarrow> bool \<Rightarrow> runtime_context \<Rightarrow> report" where
  "report_with jl pkg ver docs is_exact_match runtime_context0 =
     (let context_list0 = format_docs jl docs;
          (st, severities, vuln_count, context_list, docs_count) =
            (if docs = [] \<or> \<not> is_exact_match
             then (''UNKNOWN'', [], 0, [], 0)
             else if list_ex is_clean_doc docs
             then (''CLEAN'', [], 0, context_list0, length docs)
             else (''VULNERABLE'', sorted_severities context_list0, length context_list0,
                   context_list0, length docs));
          exploitable_vulns =
            (if is_exposed runtime_context0 \<and> context_list \<noteq> []
             then exploitable_of context_list else []);
          runtime_context = runtime_context0 \<lparr> exploitable_vulnerabilities := exploitable_vulns \<rparr>
      in \<lparr> package = pkg,
           version = ver,
           status = st,
           retrieved_docs_count = (if is_exact_match then docs_count else 0),
           unique_vuln_count = vuln_count,
           severities_found = severities,
           all_vulnerabilities = context_list,
           runtime_exposure = runtime_context,
           exploitable_count = length exploitable_vulns,
           report_summary_text = summary_text pkg ver st vuln_count severities exploitable_vulns,
           found_in_database = is_exact_match \<rparr>)"

text \<open>
  \<^verbatim>\<open>_build_report\<close>: an exception of \<^verbatim>\<open>_build_runtime_context\<close> is not caught.
\<close>

definition build_report ::
  "json_loads \<Rightarrow> string \<Rightarrow> string \<Rightarrow> doc list \<Rightarrow> runtime_data option \<Rightarrow> bool
     \<Rightarrow> py_error + report" where
  "build_report jl pkg ver docs runtime_data is_exact_match =
     (case build_runtime_context runtime_data of
        Inl exc \<Rightarrow> Inl exc
      | Inr runtime_context0 \<Rightarrow>
          Inr (report_with jl pkg ver docs is_exact_match runtime_context0))"

subsection \<open>Similarity search adapter: \<^verbatim>\<open>VectorStoreService.similarity_search\<close>\<close>

text \<open>
  The vector store is an external collaborator: a function from the query text, the
  result limit \<open>k\<close> and the metadata filter (\<open>None\<close> when no filter is passed) to
  the documents it returns or the exception it raises.
\<close>

datatype search_filter =
    NameAndVersion string string
  | NameOnly string

type_synonym backend = "string \<Rightarrow> int \<Rightarrow> search_filter option \<Rightarrow> py_error + doc list"

text \<open>
  \<^verbatim>\<open>[doc for doc in docs if getattr(doc, "metadata", {}).get("package_name") == package_name]\<close>
\<close>

definition verified_docs :: "string \<Rightarrow> doc list \<Rightarrow> doc list" where
  "verified_docs package_name docs =
     filter (\<lambda>d. metadata d ''package_name'' = Some package_name) docs"

text \<open>
  \<^verbatim>\<open>server.py\<close>: one \<^verbatim>\<open>try\<close> around both tiers, \<^verbatim>\<open>return [], False\<close>
  in its \<^verbatim>\<open>except\<close>. The first argument is \<^verbatim>\<open>self._store\<close>.
\<close>

definition similarity_search ::
  "backend option \<Rightarrow> string \<Rightarrow> string \<Rightarrow> string \<Rightarrow> int \<Rightarrow> doc list \<times> bool" where
  "similarity_search store query package_name package_version k =
     (case store of
        None \<Rightarrow> ([], False)
      | Some be \<Rightarrow>
          (case be query k (Some (NameAndVersion package_name package_version)) of
             Inl exc \<Rightarrow> ([], False)
           | Inr docs \<Rightarrow>
               if verified_docs package_name docs \<noteq> []
               then (verified_docs package_name docs, True)
               else
                 (case be query k (Some (NameOnly package_name)) of
                    Inl exc \<Rightarrow> ([], False)
                  | Inr docs2 \<Rightarrow>
                      if verified_docs package_name docs2 \<noteq> []
                      then (verified_docs package_name docs2, True)
                      else ([], False))))"

text \<open>
  \<^verbatim>\<open>simple_rag_server.py\<close>: each tier in its own \<^verbatim>\<open>try\<close>; a tier that raises
  or returns nothing falls through to the next one. The documents of a tier are returned
  as the store gave them.
\<close>

definition similarity_search_simple ::
  "backend option \<Rightarrow> string \<Rightarrow> string \<Rightarrow> string \<Rightarrow> int \<Rightarrow> doc list" where
  "similarity_search_simple store query package_name package_version k =
     (case store of
        None \<Rightarrow> []
      | Some be \<Rightarrow>
          (case be query k (Some (NameAndVersion package_name package_version)) of
             Inr (d # ds) \<Rightarrow> d # ds
           | _ \<Rightarrow>
               (case be query k (Some (NameOnly package_name)) of
                  Inr (d # ds) \<Rightarrow> d # ds
                | _ \<Rightarrow>
                    (case be (package_name @ '' '' @ package_version) (min 5 k) None of
                       Inr (d # ds) \<Rightarrow> d # ds
                     | _ \<Rightarrow> []))))"

text \<open>\<^verbatim>\<open>_build_report\<close> of \<^verbatim>\<open>simple_rag_server.py\<close>.\<close>

record simple_report =
  sr_package :: string
  sr_version :: string
  sr_status :: string
  sr_retrieved_docs_count :: nat
  sr_unique_vuln_count :: nat
  sr_severities_found :: "string list"
  sr_all_vulnerabilities :: "vuln list"
  sr_report_summary_text :: string

definition build_report_simple :: "json_loads \<Rightarrow> string \<Rightarrow> string \<Rightarrow> doc list \<Rightarrow> simple_report" where
  "build_report_simple jl pkg ver docs =
     (let context_list = format_docs jl docs;
          (st, severities, vuln_count) =
            (if docs = [] then (''UNKNOWN'', [], 0)
             else if list_ex is_clean_doc docs then (''CLEAN'', [], 0)
             else (''VULNERABLE'', sorted_severities context_list, length context_list))
      in \<lparr> sr_package = pkg,
           sr_version = ver,
           sr_status = st,
           sr_retrieved_docs_count = length docs,
           sr_unique_vuln_count = vuln_count,
           sr_severities_found = severities,
           sr_all_vulnerabilities = context_list,
           sr_report_summary_text =
             ''The package '' @ pkg @ '' version '' @ ver @ '' is '' @ st @ ''. ''
               @ py_str_nat vuln_count @ '' unique vulnerabilities found. ''
               @ ''Severities: ''
               @ (if severities \<noteq> [] then py_join '', '' severities else ''N/A'') @ ''.'' \<rparr>)"

subsection \<open>Text generation: \<^verbatim>\<open>LocalLLM\<close>\<close>

text \<open>
  The loaded pipeline is an external collaborator: from the prompt and the
  \<^verbatim>\<open>do_sample\<close> flag to the generated text or the exception it raises.
\<close>

record local_llm =
  model_path :: string
  max_new_tokens :: int
  temperature :: real
  quantization :: string
  enabled :: bool
  pipeline :: "(string \<Rightarrow> bool \<Rightarrow> py_error + string) option"

record llm_info =
  info_model_path :: string
  info_quantization :: string
  info_max_new_tokens :: int
  info_temperature :: real
  info_loaded :: bool

definition info :: "local_llm \<Rightarrow> llm_info" where
  "info llm =
     \<lparr> info_model_path = model_path llm,
       info_quantization = (if enabled llm then quantization llm else ''disabled''),
       info_max_new_tokens = max_new_tokens llm,
       info_temperature = temperature llm,
       info_loaded = (case pipeline llm of None \<Rightarrow> False | Some pl \<Rightarrow> True) \<rparr>"

text \<open>
  \<^verbatim>\<open>LocalLLM.invoke\<close>. With an empty prompt \<^verbatim>\<open>output.split(prompt, 1)\<close> raises
  \<^verbatim>\<open>ValueError\<close> inside the \<^verbatim>\<open>try\<close>.
\<close>

definition invoke :: "local_llm \<Rightarrow> string \<Rightarrow> string" where
  "invoke llm prompt =
     (if \<not> enabled llm then ''LLM unavailable''
      else
        (case pipeline llm of
           None \<Rightarrow> ''LLM unavailable''
         | Some pl \<Rightarrow>
             (case pl prompt (temperature llm > 0) of
                Inl exc \<Rightarrow> ''LLM invocation failed''
              | Inr output \<Rightarrow>
                  (case after_first prompt output of
                     None \<Rightarrow> py_strip output
                   | Some rest \<Rightarrow>
                       if prompt = [] then ''LLM invocation failed'' else py_strip rest))))"

subsection \<open>Narrative prompt: \<^verbatim>\<open>_build_llm_prompt\<close>\<close>

text \<open>
  One line of \<^verbatim>\<open>vuln_lines\<close>. \<^verbatim>\<open>v.get("description", "")[:100]\<close> reads the key
  \<^verbatim>\<open>description\<close>, which \<^verbatim>\<open>_format_docs\<close> always sets, so a document without
  a description gives \<^verbatim>\<open>None[:100]\<close>: a \<^verbatim>\<open>TypeError\<close>.
\<close>

definition vuln_line :: "vuln \<Rightarrow> py_error + string" where
  "vuln_line v =
     (case description v of
        None \<Rightarrow> Inl TypeError
      | Some desc \<Rightarrow>
          Inr (''- '' @ cve_id v @ '' (''
                 @ (case severity v of None \<Rightarrow> ''None'' | Some sev \<Rightarrow> sev)
                 @ ''): '' @ take_chars 100 desc @ ''...''))"

fun vuln_lines :: "vuln list \<Rightarrow> py_error + string list" where
  "vuln_lines [] = Inr []"
| "vuln_lines (v # vs) =
     (case vuln_line v of
        Inl exc \<Rightarrow> Inl exc
      | Inr l \<Rightarrow> (case vuln_lines vs of Inl exc \<Rightarrow> Inl exc | Inr ls \<Rightarrow> Inr (l # ls)))"

definition prompt_instruction :: string where
  "prompt_instruction =
     ''### Instruction:\<newline>''
     @ ''Write a brief, friendly security summary (2-3 sentences max). Be direct and helpful.\<newline>''
     @ ''- If vulnerable: mention the most critical issue and one key action.\<newline>''
     @ ''- If clean: confirm it's safe, keep it short.\<newline>''
     @ ''- Skip technical jargon. Write like you're explaining to a developer.\<newline>''
     @ ''- Only mention runtime/network info if ports are actually exposed.\<newline>\<newline>''"

definition build_llm_prompt :: "report \<Rightarrow> py_error + string" where
  "build_llm_prompt r =
     (let runtime = runtime_exposure r;
          exploitable = exploitable_vulnerabilities runtime;
          top_vulns = take 3 (all_vulnerabilities r)
      in case vuln_lines top_vulns of
           Inl exc \<Rightarrow> Inl exc
         | Inr ls \<Rightarrow>
             (let vuln_summary = py_join ''\<newline>'' ls;
                  runtime_info0 =
                    (if is_exposed runtime \<and> exposed_ports runtime \<noteq> []
                     then ''Network exposure: Ports ''
                            @ py_join '', '' (map py_str_int (exposed_ports runtime))
                            @ '' are open.''
                     else []);
                  runtime_info =
                    (if exploitable \<noteq> []
                     then runtime_info0 @ '' '' @ py_str_nat (length exploitable)
                            @ '' CVE(s) are exploitable due to runtime exposure.''
                     else runtime_info0)
              in Inr (prompt_instruction
                   @ ''### Package: '' @ package r @ ''@'' @ version r @ ''\<newline>''
                   @ ''Status: '' @ status r @ ''\<newline>''
                   @ ''Vulnerabilities: '' @ py_str_nat (unique_vuln_count r)
                   @ '' found (Severities: ''
                   @ (if severities_found r \<noteq> [] then py_join '', '' (severities_found r)
                      else ''None'')
                   @ '')\<newline>''
                   @ (if vuln_summary \<noteq> [] then ''Top issues:\<newline>'' @ vuln_summary else [])
                   @ ''\<newline>''
                   @ runtime_info @ ''\<newline>\<newline>''
                   @ ''### Response (2-3 sentences, friendly tone):\<newline>'')))"

subsection \<open>Batch orchestrator: \<^verbatim>\<open>analyze_packages\<close>\<close>

record target_info =
  ti_id :: "string option"
  ti_name :: "string option"
  ti_ip :: "string option"

record package_input =
  pi_package :: string
  pi_version :: string
  pi_summarize_with_llm :: bool
  pi_runtime_context :: "runtime_data option"

record analysis_options =
  summarize_with_llm :: bool
  max_packages :: "int option"

record analysis_request =
  target :: target_info
  packages :: "package_input list"
  runtime_defaults :: "runtime_data option"
  options :: analysis_options

record package_summary =
  ps_package :: string
  ps_version :: string
  ps_status :: string
  ps_unique_vuln_count :: nat
  ps_severities_found :: "string list"
  ps_runtime_exposure :: runtime_context
  ps_exploitable_count :: nat
  llm_summary :: string
  structured_report :: report

record analysis_response =
  resp_target :: target_info
  resp_model :: llm_info
  resp_packages :: "package_summary list"

text \<open>The module-level \<^verbatim>\<open>VECTOR_SERVICE\<close> and \<^verbatim>\<open>LLM\<close>, and the JSON decoder.\<close>

record env =
  vector_store :: "backend option"
  llm :: local_llm
  loads :: json_loads

text \<open>
  \<^verbatim>\<open>{**runtime_context, **package.runtime_context.dict(exclude_unset=True)}\<close>: a field
  the package sets wins, also when it is set to \<^verbatim>\<open>null\<close>; only an unset field
  leaves the default in place.
\<close>

definition overlay :: "runtime_data \<Rightarrow> runtime_data \<Rightarrow> runtime_data" where
  "overlay base own =
     \<lparr> rd_network = (case rd_network own of Absent \<Rightarrow> rd_network base | x \<Rightarrow> x),
       rd_web_vulnerabilities =
         (case rd_web_vulnerabilities own of
            None \<Rightarrow> rd_web_vulnerabilities base | Some x \<Rightarrow> Some x),
       rd_database_issues =
         (case rd_database_issues own of None \<Rightarrow> rd_database_issues base | Some x \<Rightarrow> Some x),
       rd_auth_weaknesses =
         (case rd_auth_weaknesses own of None \<Rightarrow> rd_auth_weaknesses base | Some x \<Rightarrow> Some x) \<rparr>"

text \<open>\<^verbatim>\<open>xs[:m]\<close> for an integer \<open>m\<close>.\<close>

definition py_prefix :: "'a list \<Rightarrow> int \<Rightarrow> 'a list" where
  "py_prefix xs m = (if 0 \<le> m then take (nat m) xs else take (length xs - nat (- m)) xs)"

definition packages_to_process :: "analysis_request \<Rightarrow> package_input list" where
  "packages_to_process request =
     (case max_packages (options request) of
        None \<Rightarrow> packages request
      | Some m \<Rightarrow> if m \<noteq> 0 then py_prefix (packages request) m else packages request)"

text \<open>
  The first lines of the loop body: the runtime context of one package. Of the request
  they read \<^verbatim>\<open>runtime_defaults\<close> only.
\<close>

definition package_runtime :: "runtime_data option \<Rightarrow> package_input \<Rightarrow> runtime_data" where
  "package_runtime defaults p =
     (case pi_runtime_context p of
        None \<Rightarrow> runtime_or_empty defaults
      | Some rc \<Rightarrow> overlay (runtime_or_empty defaults) rc)"

definition package_query :: "package_input \<Rightarrow> string" where
  "package_query p = ''status for '' @ pi_package p @ '' '' @ pi_version p"

text \<open>The report of one package: the search and \<^verbatim>\<open>_build_report\<close> of the loop body.\<close>

definition package_report ::
  "env \<Rightarrow> runtime_data option \<Rightarrow> package_input \<Rightarrow> py_error + report" where
  "package_report e defaults p =
     (let (docs, is_exact_match) =
            similarity_search (vector_store e) (package_query p)
              (pi_package p) (pi_version p) 100
      in build_report (loads e) (pi_package p) (pi_version p) docs
           (Some (package_runtime defaults p)) is_exact_match)"

text \<open>
  The body of the \<^verbatim>\<open>for\<close> loop; \<open>summarize\<close> is
  \<^verbatim>\<open>request.options.summarize_with_llm\<close>. Nothing in the loop catches an exception,
  so one raised by \<^verbatim>\<open>_build_report\<close> or by \<^verbatim>\<open>_build_llm_prompt\<close> leaves the
  function.
\<close>

definition process_package ::
  "env \<Rightarrow> runtime_data option \<Rightarrow> bool \<Rightarrow> package_input \<Rightarrow> py_error + package_summary" where
  "process_package e defaults summarize p =
     (case package_report e defaults p of
        Inl exc \<Rightarrow> Inl exc
      | Inr r \<Rightarrow>
          (let summary0 = report_summary_text r;
               text_or_exc =
                 (if summarize
                  then (case build_llm_prompt r of
                          Inl exc \<Rightarrow> Inl exc
                        | Inr prompt \<Rightarrow>
                            (let llm_output = invoke (llm e) prompt
                             in if llm_output \<noteq> [] \<and> llm_output \<noteq> ''LLM unavailable''
                                then Inr llm_output else Inr summary0))
                  else Inr summary0)
           in case text_or_exc of
                Inl exc \<Rightarrow> Inl exc
              | Inr txt \<Rightarrow>
                  Inr \<lparr> ps_package = package r,
                        ps_version = version r,
                        ps_status = status r,
                        ps_unique_vuln_count = unique_vuln_count r,
                        ps_severities_found = severities_found r,
                        ps_runtime_exposure = runtime_exposure r,
                        ps_exploitable_count = exploitable_count r,
                        llm_summary = txt,
                        structured_report = r \<rparr>))"

fun process_all ::
  "env \<Rightarrow> runtime_data option \<Rightarrow> bool \<Rightarrow> package_input list \<Rightarrow> package_summary list
     \<Rightarrow> py_error + package_summary list" where
  "process_all e defaults summarize [] summaries = Inr summaries"
| "process_all e defaults summarize (p # ps) summaries =
     (case process_package e defaults summarize p of
        Inl exc \<Rightarrow> Inl exc
      | Inr s \<Rightarrow> process_all e defaults summarize ps (summaries @ [s]))"

definition analyze_packages :: "env \<Rightarrow> analysis_request \<Rightarrow> py_error + analysis_response" where
  "analyze_packages e request =
     (if packages request = []
      then Inl (HTTPException 400 ''At least one package is required.'')
      else
        (case process_all e (runtime_defaults request) (summarize_with_llm (options request))
                (packages_to_process request) [] of
           Inl exc \<Rightarrow> Inl exc
         | Inr summaries \<Rightarrow>
             Inr \<lparr> resp_target = target request,
                   resp_model = info (llm e),
                   resp_packages = summaries \<rparr>))"

subsection \<open>The specification's wording, for comparison\<close>

text \<open>
  Document \<open>i\<close> of the input is the first one to carry its \<^verbatim>\<open>cve_id\<close>, and that
  id is present, non-empty and not the clean sentinel.
\<close>

definition first_seen :: "doc list \<Rightarrow> nat \<Rightarrow> bool" where
  "first_seen docs i =
     (case metadata (docs ! i) ''cve_id'' of
        None \<Rightarrow> False
      | Some c \<Rightarrow>
          c \<noteq> [] \<and> c \<noteq> ''N/A'' \<and>
          (\<forall>d \<in> set (take i docs). metadata d ''cve_id'' \<noteq> Some c))"

text \<open>The record the normalizer builds from one document.\<close>

definition vuln_of_doc :: "json_loads \<Rightarrow> doc \<Rightarrow> vuln" where
  "vuln_of_doc jl d = make_vuln jl (case metadata d ''cve_id'' of None \<Rightarrow> [] | Some c \<Rightarrow> c) d"

text \<open>The profile of no exposure: every flag false, every sequence empty.\<close>

definition no_exposure :: runtime_context where
  "no_exposure =
     \<lparr> is_exposed = False, exposed_ports = [], exposed_services = [],
       web_vulnerabilities = JArr [], database_issues = JArr [], auth_weaknesses = JArr [],
       exploitable_vulnerabilities = [] \<rparr>"

text \<open>A tier that raised is a tier with zero results.\<close>

definition tier_docs :: "py_error + doc list \<Rightarrow> doc list" where
  "tier_docs res = (case res of Inl exc \<Rightarrow> [] | Inr docs \<Rightarrow> docs)"

text \<open>
  The failure policy as the specification words it, on the two tiers of
  \<^verbatim>\<open>server.py\<close>: an error in a tier counts as zero results for that tier and the
  next tier is still attempted.
\<close>

definition similarity_search_continuing ::
  "backend option \<Rightarrow> string \<Rightarrow> string \<Rightarrow> string \<Rightarrow> int \<Rightarrow> doc list \<times> bool" where
  "similarity_search_continuing store query package_name package_version k =
     (case store of
        None \<Rightarrow> ([], False)
      | Some be \<Rightarrow>
          (let t1 = verified_docs package_name
                      (tier_docs (be query k (Some (NameAndVersion package_name package_version))));
               t2 = verified_docs package_name
                      (tier_docs (be query k (Some (NameOnly package_name))))
           in if t1 \<noteq> [] then (t1, True)
              else if t2 \<noteq> [] then (t2, True)
              else ([], False)))"

text \<open>The display texts and the deterministic summaries of a batch response.\<close>

definition display_texts :: "py_error + analysis_response \<Rightarrow> py_error + string list" where
  "display_texts res =
     (case res of Inl exc \<Rightarrow> Inl exc | Inr resp \<Rightarrow> Inr (map llm_summary (resp_packages resp)))"

definition summary_texts :: "py_error + analysis_response \<Rightarrow> py_error + string list" where
  "summary_texts res =
     (case res of
        Inl exc \<Rightarrow> Inl exc
      | Inr resp \<Rightarrow> Inr (map (\<lambda>s. report_summary_text (structured_report s)) (resp_packages resp)))"

text \<open>The statuses of the verdicts of a batch response.\<close>

definition verdict_statuses :: "py_error + analysis_response \<Rightarrow> py_error + string list" where
  "verdict_statuses res =
     (case res of Inl exc \<Rightarrow> Inl exc | Inr resp \<Rightarrow> Inr (map ps_status (resp_packages resp)))"

subsection \<open>Sample inputs\<close>

definition sample_loads :: json_loads where
  "sample_loads s = (if s = ''[]'' then Some (JArr []) else None)"

definition doc_of :: "(string \<times> string) list \<Rightarrow> doc" where
  "doc_of kvs = \<lparr> metadata = map_of kvs \<rparr>"

text \<open>The clean sentinel record of \<open>libpq5\<close>, as the index builder stores it.\<close>

definition clean_doc :: doc where
  "clean_doc = doc_of
     [(''package_name'', ''libpq5''), (''package_version'', ''9.6.10-0+deb9u1''),
      (''cve_id'', ''N/A''), (''severity'', ''NONE''),
      (''description'', ''No vulnerabilities found for this package in the dataset.''),
      (''exploits_json'', ''[]''), (''fixes_json'', ''[]'')]"

text \<open>Two vulnerability records of another version of \<open>libpq5\<close>.\<close>

definition critical_doc :: doc where
  "critical_doc = doc_of
     [(''package_name'', ''libpq5''), (''package_version'', ''9.6.7-0+deb9u1''),
      (''cve_id'', ''CVE-2018-1115''), (''severity'', ''CRITICAL''),
      (''description'', ''Missing access control in the extension''),
      (''exploits_json'', ''[]''), (''fixes_json'', ''[]'')]"

definition high_doc :: doc where
  "high_doc = doc_of
     [(''package_name'', ''libpq5''), (''package_version'', ''9.6.7-0+deb9u1''),
      (''cve_id'', ''CVE-2018-1058''), (''severity'', ''HIGH''),
      (''description'', ''Search path allows code execution''),
      (''exploits_json'', ''[]''), (''fixes_json'', ''not json'')]"

text \<open>A record without a description, a record of another package, a record without id.\<close>

definition bare_doc :: doc where
  "bare_doc = doc_of
     [(''package_name'', ''zlib1g''), (''package_version'', ''1.2.8''),
      (''cve_id'', ''CVE-2016-9841''), (''severity'', ''HIGH'')]"

definition openssl_doc :: doc where
  "openssl_doc = doc_of
     [(''package_name'', ''openssl''), (''package_version'', ''1.0.1''),
      (''cve_id'', ''CVE-2014-0160''), (''severity'', ''HIGH''),
      (''description'', ''Heartbeat read overrun'')]"

definition no_id_doc :: doc where
  "no_id_doc = doc_of
     [(''package_name'', ''libpq5''), (''package_version'', ''9.6.10-0+deb9u1''),
      (''cve_id'', []), (''severity'', ''LOW'')]"

text \<open>Port 80 announced as \<open>HTTP\<close>, port 22 as \<open>ssh\<close>, port 8080 without annotation.\<close>

definition web_runtime :: runtime_data where
  "web_runtime =
     \<lparr> rd_network =
         Present \<lparr> open_ports = Present [22, 80, 8080],
                   services = Present (map_of [(''22'', ''ssh''), (''80'', ''HTTP'')]) \<rparr>,
       rd_web_vulnerabilities = None,
       rd_database_issues = None,
       rd_auth_weaknesses = None \<rparr>"

text \<open>The runtime context \<^verbatim>\<open>{"network": null}\<close>.\<close>

definition null_network_runtime :: runtime_data where
  "null_network_runtime =
     \<lparr> rd_network = Null,
       rd_web_vulnerabilities = None,
       rd_database_issues = None,
       rd_auth_weaknesses = None \<rparr>"

text \<open>
  A store that holds the three \<open>libpq5\<close> records and the \<open>zlib1g\<close> record under
  their names, and answers an unfiltered query with the \<open>openssl\<close> record.
\<close>

definition sample_backend :: backend where
  "sample_backend query k flt =
     (case flt of
        None \<Rightarrow> Inr [openssl_doc]
      | Some (NameAndVersion n v) \<Rightarrow>
          if n = ''libpq5'' \<and> v = ''9.6.10-0+deb9u1'' then Inr [clean_doc] else Inr []
      | Some (NameOnly n) \<Rightarrow>
          if n = ''libpq5'' then Inr [clean_doc, critical_doc, high_doc]
          else if n = ''zlib1g'' then Inr [bare_doc]
          else Inr [])"

text \<open>The same store, failing on every query that filters on name and version.\<close>

definition flaky_backend :: backend where
  "flaky_backend query k flt =
     (case flt of
        Some (NameAndVersion n v) \<Rightarrow> Inl (RuntimeError ''index unreadable'')
      | _ \<Rightarrow> sample_backend query k flt)"

definition disabled_llm :: local_llm where
  "disabled_llm =
     \<lparr> model_path = ''models/mistral'', max_new_tokens = 512, temperature = 0,
       quantization = ''4bit'', enabled = False, pipeline = None \<rparr>"

text \<open>A loaded model whose every generation raises.\<close>

definition failing_llm :: local_llm where
  "failing_llm =
     \<lparr> model_path = ''models/mistral'', max_new_tokens = 512, temperature = 0,
       quantization = ''4bit'', enabled = True,
       pipeline = Some (\<lambda>prompt do_sample. Inl (RuntimeError ''CUDA out of memory'')) \<rparr>"

definition sample_env :: env where
  "sample_env = \<lparr> vector_store = Some sample_backend, llm = disabled_llm, loads = sample_loads \<rparr>"

definition failing_llm_env :: env where
  "failing_llm_env =
     \<lparr> vector_store = Some sample_backend, llm = failing_llm, loads = sample_loads \<rparr>"

definition package_of :: "string \<Rightarrow> string \<Rightarrow> package_input" where
  "package_of n v =
     \<lparr> pi_package = n, pi_version = v, pi_summarize_with_llm = False,
       pi_runtime_context = None \<rparr>"

definition request_of :: "package_input list \<Rightarrow> analysis_request" where
  "request_of ps =
     \<lparr> target = \<lparr> ti_id = None, ti_name = Some ''host'', ti_ip = None \<rparr>,
       packages = ps,
       runtime_defaults = None,
       options = \<lparr> summarize_with_llm = True, max_packages = None \<rparr> \<rparr>"

section \<open>Properties\<close>

subsection \<open>Document normalizer\<close>

lemma upt_Suc_shift: "[0..<Suc n] = 0 # map Suc [0..<n]"
  by (simp add: upt_conv_Cons map_Suc_upt del: upt_Suc)

lemma all_less_Suc_shift: "(\<forall>j<Suc i. P j) \<longleftrightarrow> P 0 \<and> (\<forall>j<i. P (Suc j))"
  by (metis less_Suc_eq_0_disj Suc_less_eq zero_less_Suc)

text \<open>
  The loop, started with any \<^verbatim>\<open>context_list\<close> and \<^verbatim>\<open>seen_cves\<close>, appends
  the records of the positions whose id is usable, not yet seen and not carried by an
  earlier position.
\<close>

lemma format_loop_positions:
  "format_loop jl ds ctx seen =
     ctx @ map (\<lambda>i. vuln_of_doc jl (ds ! i))
       (filter (\<lambda>i. case metadata (ds ! i) ''cve_id'' of
                       None \<Rightarrow> False
                     | Some c \<Rightarrow> c \<noteq> [] \<and> c \<noteq> ''N/A'' \<and> c \<notin> seen \<and>
                         (\<forall>j<i. metadata (ds ! j) ''cve_id'' \<noteq> Some c))
          [0..<length ds])"
proof (induction ds arbitrary: ctx seen)
  case Nil
  then show ?case by simp
next
  case (Cons d ds)
  let ?keep = "\<lambda>seen ds i. case metadata (ds ! i) ''cve_id'' of
                       None \<Rightarrow> False
                     | Some c \<Rightarrow> c \<noteq> [] \<and> c \<noteq> ''N/A'' \<and> c \<notin> seen \<and>
                         (\<forall>j<i. metadata (ds ! j) ''cve_id'' \<noteq> Some c)"
  show ?case
  proof (cases "metadata d ''cve_id''")
    case None
    have "\<And>i. ?keep seen (d # ds) (Suc i) = ?keep seen ds i"
      using None by (auto simp: all_less_Suc_shift split: option.splits)
    then show ?thesis
      using None Cons.IH [of ctx seen]
      by (simp add: upt_Suc_shift filter_map comp_def del: upt_Suc)
  next
    case (Some c)
    show ?thesis
    proof (cases "c = [] \<or> c = ''N/A'' \<or> c \<in> seen")
      case True
      have "\<And>i. ?keep seen (d # ds) (Suc i) = ?keep seen ds i"
        using Some True by (auto simp: all_less_Suc_shift split: option.splits)
      then show ?thesis
        using Some True Cons.IH [of ctx seen]
        by (simp add: upt_Suc_shift filter_map comp_def del: upt_Suc)
    next
      case False
      have "\<And>i. ?keep seen (d # ds) (Suc i) = ?keep (insert c seen) ds i"
        using Some False by (auto simp: all_less_Suc_shift split: option.splits)
      then show ?thesis
        using Some False Cons.IH [of "ctx @ [make_vuln jl c d]" "insert c seen"]
        by (simp add: upt_Suc_shift filter_map comp_def vuln_of_doc_def del: upt_Suc)
    qed
  qed
qed

lemma earlier_docs_nth:
  "i < length docs \<Longrightarrow> (\<forall>d \<in> set (take i docs). P d) \<longleftrightarrow> (\<forall>j<i. P (docs ! j))"
proof -
  assume "i < length docs"
  then have "set (take i docs) = (!) docs ` {0..<i}"
    by (simp add: nth_image)
  then show ?thesis by auto
qed

lemma first_seen_positions:
  "filter (first_seen docs) [0..<length docs] =
     filter (\<lambda>i. case metadata (docs ! i) ''cve_id'' of
                       None \<Rightarrow> False
                     | Some c \<Rightarrow> c \<noteq> [] \<and> c \<noteq> ''N/A'' \<and> c \<notin> {} \<and>
                         (\<forall>j<i. metadata (docs ! j) ''cve_id'' \<noteq> Some c))
          [0..<length docs]"
  by (rule filter_cong) (auto simp: first_seen_def earlier_docs_nth split: option.splits)

lemma format_docs_positions:
  "format_docs jl docs =
     map (\<lambda>i. vuln_of_doc jl (docs ! i)) (filter (first_seen docs) [0..<length docs])"
  unfolding format_docs_def format_loop_positions first_seen_positions by simp

lemma cve_id_vuln_of_doc:
  "cve_id (vuln_of_doc jl d) = (case metadata d ''cve_id'' of None \<Rightarrow> [] | Some c \<Rightarrow> c)"
  by (simp add: vuln_of_doc_def make_vuln_def)

lemma format_docs_distinct: "distinct (map cve_id (format_docs jl docs))"
proof -
  have "inj_on (\<lambda>i. cve_id (vuln_of_doc jl (docs ! i)))
          (set (filter (first_seen docs) [0..<length docs]))"
  proof (rule inj_onI)
    fix i j
    assume i: "i \<in> set (filter (first_seen docs) [0..<length docs])"
      and j: "j \<in> set (filter (first_seen docs) [0..<length docs])"
      and eq: "cve_id (vuln_of_doc jl (docs ! i)) = cve_id (vuln_of_doc jl (docs ! j))"
    from i obtain c where c: "metadata (docs ! i) ''cve_id'' = Some c"
      "\<forall>k<i. metadata (docs ! k) ''cve_id'' \<noteq> Some c"
      by (auto simp: first_seen_def earlier_docs_nth split: option.splits)
    from j obtain c' where c': "metadata (docs ! j) ''cve_id'' = Some c'"
      "\<forall>k<j. metadata (docs ! k) ''cve_id'' \<noteq> Some c'"
      by (auto simp: first_seen_def earlier_docs_nth split: option.splits)
    from eq c c' have "c = c'" by (simp add: cve_id_vuln_of_doc)
    with c c' show "i = j"
      by (metis linorder_neqE_nat)
  qed
  then show ?thesis
    by (simp add: format_docs_positions distinct_map comp_def)
qed

lemma format_loop_no_ids:
  "\<forall>d \<in> set ds. metadata d ''cve_id'' = None \<or> metadata d ''cve_id'' = Some [] \<Longrightarrow>
   format_loop jl ds ctx seen = ctx"
  by (induction ds arbitrary: ctx seen) (auto split: option.splits)

text \<open>
  C5. The normalizer emits one record for each document whose \<^verbatim>\<open>cve_id\<close> is present,
  non-empty, not \<^verbatim>\<open>"N/A"\<close> and not carried by an earlier document, and for no other
  document; the records come in input order, each built from the first document with its
  id, and their ids are pairwise distinct.
\<close>

theorem format_docs_first_seen:
  "format_docs jl docs =
     map (\<lambda>i. vuln_of_doc jl (docs ! i)) (filter (first_seen docs) [0..<length docs])
   \<and> distinct (map cve_id (format_docs jl docs))"
  using format_docs_positions format_docs_distinct by simp

lemma sample_first_seen:
  "filter (first_seen [critical_doc, clean_doc, critical_doc, no_id_doc, high_doc])
     [0..<length [critical_doc, clean_doc, critical_doc, no_id_doc, high_doc]] = [0, 4]"
  by code_simp

theorem format_docs_first_seen_witness:
  "format_docs sample_loads [critical_doc, clean_doc, critical_doc, no_id_doc, high_doc] =
     [vuln_of_doc sample_loads critical_doc, vuln_of_doc sample_loads high_doc]
   \<and> distinct (map cve_id
        (format_docs sample_loads [critical_doc, clean_doc, critical_doc, no_id_doc, high_doc]))"
proof -
  have pos:
    "map (\<lambda>i. vuln_of_doc sample_loads
                ([critical_doc, clean_doc, critical_doc, no_id_doc, high_doc] ! i)) [0, 4] =
       [vuln_of_doc sample_loads critical_doc, vuln_of_doc sample_loads high_doc]"
    by simp
  show ?thesis
    using format_docs_first_seen
            [of sample_loads "[critical_doc, clean_doc, critical_doc, no_id_doc, high_doc]"]
    unfolding sample_first_seen pos .
qed


subsection \<open>Runtime exposure correlator\<close>

lemma missing_runtime_context: "build_runtime_context None = Inr no_exposure"
  by (simp add: build_runtime_context_def runtime_or_empty_def empty_runtime_data_def
      network_of_def web_ports_of_def no_exposure_def)

lemma empty_runtime_context: "build_runtime_context (Some empty_runtime_data) = Inr no_exposure"
  by (simp add: build_runtime_context_def runtime_or_empty_def empty_runtime_data_def
      network_of_def web_ports_of_def no_exposure_def)

text \<open>The correlator raises exactly on these \<^verbatim>\<open>null\<close> keys.\<close>

lemma build_runtime_context_isl:
  "isl (build_runtime_context rd) \<longleftrightarrow>
     rd_network (runtime_or_empty rd) = Null \<or>
     (\<exists>n. rd_network (runtime_or_empty rd) = Present n \<and>
        (open_ports n = Null \<or>
         (\<exists>ports. open_ports n = Present ports \<and> ports \<noteq> [] \<and> services n = Null)))"
  by (auto simp: build_runtime_context_def network_of_def web_ports_of_def Let_def
      split: entry.splits sum.splits)

text \<open>
  What the correlator returns, when it returns, on a context with a network dictionary:
  the exposed ports are the open ports whose announced service name, lowered, is
  \<open>http\<close>, \<open>https\<close> or \<open>http-proxy\<close>, in their order; \<^verbatim>\<open>is_exposed\<close> holds
  exactly when there is one; the exposed services are the names the service table gives
  these ports, one for each and in the same order. An exposed port always has a name in
  the table, so the default \<open>unknown\<close> of \<^verbatim>\<open>services.get\<close> is never an entry.
\<close>

lemma runtime_context_exposure:
  assumes "build_runtime_context rd = Inr ctx"
    and "rd_network (runtime_or_empty rd) = Present n"
    and "open_ports n = Present ports"
  shows "exposed_ports ctx =
           filter (\<lambda>port. py_lower (case services_of n (py_str_int port) of
                                        None \<Rightarrow> [] | Some s \<Rightarrow> s)
                            \<in> {''http'', ''https'', ''http-proxy''}) ports
    \<and> (is_exposed ctx \<longleftrightarrow> exposed_ports ctx \<noteq> [])
    \<and> map Some (exposed_services ctx) =
        map (\<lambda>port. services_of n (py_str_int port)) (exposed_ports ctx)"
proof -
  have web: "is_web_port (services_of n) =
      (\<lambda>port. py_lower (case services_of n (py_str_int port) of None \<Rightarrow> [] | Some s \<Rightarrow> s)
                 \<in> {''http'', ''https'', ''http-proxy''})"
    by (simp add: is_web_port_def web_service_names_def fun_eq_iff)
  have named: "\<And>port. is_web_port (services_of n) port \<Longrightarrow>
      Some (service_name (services_of n) port) = services_of n (py_str_int port)"
    by (auto simp: is_web_port_def web_service_names_def service_name_def py_lower_def
        split: option.splits)
  have wp: "web_ports_of n = Inr (filter (is_web_port (services_of n)) ports)"
    using assms by (auto simp: build_runtime_context_def network_of_def web_ports_of_def Let_def
        split: entry.splits sum.splits if_splits)
  have ctx: "ctx = (if filter (is_web_port (services_of n)) ports \<noteq> []
       then \<lparr> is_exposed = True,
              exposed_ports = filter (is_web_port (services_of n)) ports,
              exposed_services =
                map (service_name (services_of n)) (filter (is_web_port (services_of n)) ports),
              web_vulnerabilities = web_vulnerabilities ctx,
              database_issues = database_issues ctx,
              auth_weaknesses = auth_weaknesses ctx,
              exploitable_vulnerabilities = [] \<rparr>
       else ctx \<lparr> is_exposed := False, exposed_ports := [], exposed_services := [] \<rparr>)"
    using assms(1,2) wp
    by (auto simp: build_runtime_context_def network_of_def Let_def split: if_splits)
  have p: "exposed_ports ctx = filter (is_web_port (services_of n)) ports"
    by (subst ctx) simp
  have e: "is_exposed ctx \<longleftrightarrow> exposed_ports ctx \<noteq> []"
    by (subst ctx, subst (2) ctx) simp
  have s: "exposed_services ctx = map (service_name (services_of n)) (exposed_ports ctx)"
    by (subst ctx, subst (2) ctx) simp
  have "map Some (exposed_services ctx) =
        map (\<lambda>port. services_of n (py_str_int port)) (exposed_ports ctx)"
    unfolding s p by (simp add: named)
  with p e show ?thesis unfolding web by simp
qed

lemma str_ports: "py_str_int 22 = ''22''" "py_str_int 80 = ''80''" "py_str_int 8080 = ''8080''"
  by (simp_all add: py_str_int_def digits.simps digit_char_def)

lemma lower_names: "py_lower ''ssh'' = ''ssh''" "py_lower ''HTTP'' = ''http''" "py_lower [] = []"
  by code_simp+

lemma web_runtime_web_ports:
  "filter (is_web_port (map_of [(''22'', ''ssh''), (''80'', ''HTTP'')])) [22, 80, 8080] = [80]"
  by (simp add: is_web_port_def web_service_names_def str_ports lower_names)

lemma web_runtime_names:
  "service_name (map_of [(''22'', ''ssh''), (''80'', ''HTTP'')]) 80 = ''HTTP''"
  by (simp add: service_name_def str_ports)

lemma web_runtime_context:
  "build_runtime_context (Some web_runtime) =
     Inr \<lparr> is_exposed = True, exposed_ports = [80], exposed_services = [''HTTP''],
           web_vulnerabilities = JArr [], database_issues = JArr [], auth_weaknesses = JArr [],
           exploitable_vulnerabilities = [] \<rparr>"
proof -
  have n: "network_of (runtime_or_empty (Some web_runtime)) =
      Inr \<lparr> open_ports = Present [22, 80, 8080],
            services = Present (map_of [(''22'', ''ssh''), (''80'', ''HTTP'')]) \<rparr>"
    by (simp add: network_of_def runtime_or_empty_def web_runtime_def)
  have w: "web_ports_of \<lparr> open_ports = Present [22, 80, 8080],
            services = Present (map_of [(''22'', ''ssh''), (''80'', ''HTTP'')]) \<rparr> = Inr [80]"
    unfolding web_ports_of_def services_of_def
    by (simp add: web_runtime_web_ports del: map_of.simps filter.simps)
  show ?thesis
    unfolding build_runtime_context_def Let_def n
    by (simp add: w services_of_def web_runtime_names runtime_or_empty_def web_runtime_def
        del: map_of.simps)
qed

text \<open>
  C9 at the failing input: the runtime context \<^verbatim>\<open>{"network": null}\<close>, which
  \<^verbatim>\<open>PackageRuntime\<close> admits and \<^verbatim>\<open>dict(exclude_unset=True)\<close> keeps, also over a
  default that has a network. \<^verbatim>\<open>runtime_data.get("network", {})\<close> is then
  \<^verbatim>\<open>None\<close>, and the correlator raises \<^verbatim>\<open>AttributeError\<close> where the claim has it
  return a profile; so does the report built on it.
\<close>

theorem null_network_raises:
  "build_runtime_context (Some null_network_runtime) = Inl AttributeError
   \<and> build_runtime_context (Some (overlay web_runtime null_network_runtime)) = Inl AttributeError
   \<and> build_report jl pkg ver docs (Some null_network_runtime) exact = Inl AttributeError"
  by (simp add: build_report_def build_runtime_context_def runtime_or_empty_def
      null_network_runtime_def network_of_def overlay_def)

subsection \<open>Report synthesizer\<close>

lemma digits_0: "digits 0 = ''0''"
  by (simp add: digits.simps digit_char_def)

text \<open>The synthesizer raises exactly when the correlator does.\<close>

lemma build_report_isl:
  "isl (build_report jl pkg ver docs rd exact) = isl (build_runtime_context rd)"
  by (simp add: build_report_def split: sum.splits)

lemma build_report_Inr:
  "build_report jl pkg ver docs rd exact = Inr r \<longleftrightarrow>
     (\<exists>rc. build_runtime_context rd = Inr rc \<and> r = report_with jl pkg ver docs exact rc)"
  by (auto simp: build_report_def split: sum.splits)

text \<open>
  C1. When \<^verbatim>\<open>is_exact_match\<close> is false, every report the synthesizer returns has
  status \<^verbatim>\<open>UNKNOWN\<close>, no vulnerabilities, a vulnerability count of zero and
  \<^verbatim>\<open>found_in_database\<close> false, whatever documents were supplied; and it returns one
  whenever the correlator returns.
\<close>

theorem not_exact_match_unknown:
  assumes "\<not> is_exact_match"
  shows "isl (build_report jl pkg ver docs rd is_exact_match) = isl (build_runtime_context rd)
    \<and> (\<forall>r. build_report jl pkg ver docs rd is_exact_match = Inr r \<longrightarrow>
          status r = ''UNKNOWN'' \<and>
          all_vulnerabilities r = [] \<and>
          unique_vuln_count r = 0 \<and>
          found_in_database r = False)"
  using assms
  by (auto simp: build_report_isl build_report_Inr report_with_def Let_def)

theorem not_exact_match_unknown_witness:
  "\<not> isl (build_report sample_loads ''libpq5'' ''9.6.10-0+deb9u1'' [critical_doc, high_doc]
     (Some web_runtime) False) \<and>
   status (projr (build_report sample_loads ''libpq5'' ''9.6.10-0+deb9u1''
     [critical_doc, high_doc] (Some web_runtime) False)) = ''UNKNOWN'' \<and>
   all_vulnerabilities (projr (build_report sample_loads ''libpq5'' ''9.6.10-0+deb9u1''
     [critical_doc, high_doc] (Some web_runtime) False)) = [] \<and>
   unique_vuln_count (projr (build_report sample_loads ''libpq5'' ''9.6.10-0+deb9u1''
     [critical_doc, high_doc] (Some web_runtime) False)) = 0 \<and>
   found_in_database (projr (build_report sample_loads ''libpq5'' ''9.6.10-0+deb9u1''
     [critical_doc, high_doc] (Some web_runtime) False)) = False"
proof -
  let ?b = "build_report sample_loads ''libpq5'' ''9.6.10-0+deb9u1''
     [critical_doc, high_doc] (Some web_runtime) False"
  note th = not_exact_match_unknown
    [of False sample_loads "''libpq5''" "''9.6.10-0+deb9u1''" "[critical_doc, high_doc]"
        "Some web_runtime"]
  have r: "\<not> isl ?b"
    using th by (simp add: web_runtime_context)
  then have "?b = Inr (projr ?b)" by simp
  with th r show ?thesis by simp
qed

text \<open>
  C10. With an exact match and at least one document, none of them the clean sentinel and
  each with a missing or empty \<^verbatim>\<open>cve_id\<close>, every report the synthesizer returns is
  \<^verbatim>\<open>VULNERABLE\<close> with a count of zero, no severities, no vulnerabilities, and the
  summary of zero known issues; and it returns one whenever the correlator returns.
\<close>

theorem no_usable_ids_vulnerable:
  assumes "docs \<noteq> []"
    and "\<forall>d \<in> set docs. metadata d ''cve_id'' \<noteq> Some ''N/A''"
    and "\<forall>d \<in> set docs. metadata d ''cve_id'' = None \<or> metadata d ''cve_id'' = Some []"
  shows "isl (build_report jl pkg ver docs rd True) = isl (build_runtime_context rd)
    \<and> (\<forall>r. build_report jl pkg ver docs rd True = Inr r \<longrightarrow>
          status r = ''VULNERABLE'' \<and>
          unique_vuln_count r = 0 \<and>
          severities_found r = [] \<and>
          all_vulnerabilities r = [] \<and>
          report_summary_text r =
            pkg @ ''@'' @ ver @ '' has 0 known issues. Consider updating to a patched version.'')"
proof -
  have fd: "format_docs jl docs = []"
    using assms(3) by (simp add: format_docs_def format_loop_no_ids)
  have nc: "\<not> list_ex is_clean_doc docs"
    using assms(2) by (simp add: list_ex_iff is_clean_doc_def)
  have "\<And>rc. status (report_with jl pkg ver docs True rc) = ''VULNERABLE'' \<and>
          unique_vuln_count (report_with jl pkg ver docs True rc) = 0 \<and>
          severities_found (report_with jl pkg ver docs True rc) = [] \<and>
          all_vulnerabilities (report_with jl pkg ver docs True rc) = [] \<and>
          report_summary_text (report_with jl pkg ver docs True rc) =
            pkg @ ''@'' @ ver @ '' has 0 known issues. Consider updating to a patched version.''"
    using assms(1) fd nc
    by (simp add: report_with_def Let_def sorted_severities_def truthy_severities_def
        List.map_filter_def summary_text_def py_str_nat_def digits_0)
  then show ?thesis
    by (auto simp: build_report_isl build_report_Inr)
qed

lemma no_id_doc_cve: "metadata no_id_doc ''cve_id'' = Some []"
  by (simp add: no_id_doc_def doc_of_def)

theorem no_usable_ids_vulnerable_witness:
  "\<not> isl (build_report sample_loads ''libpq5'' ''9.6.10'' [no_id_doc] None True) \<and>
   status (projr (build_report sample_loads ''libpq5'' ''9.6.10'' [no_id_doc] None True))
     = ''VULNERABLE'' \<and>
   unique_vuln_count (projr (build_report sample_loads ''libpq5'' ''9.6.10'' [no_id_doc] None True))
     = 0 \<and>
   severities_found (projr (build_report sample_loads ''libpq5'' ''9.6.10'' [no_id_doc] None True))
     = [] \<and>
   all_vulnerabilities (projr (build_report sample_loads ''libpq5'' ''9.6.10'' [no_id_doc] None True))
     = [] \<and>
   report_summary_text (projr (build_report sample_loads ''libpq5'' ''9.6.10'' [no_id_doc] None True))
     = ''libpq5@9.6.10 has 0 known issues. Consider updating to a patched version.''"
proof -
  let ?b = "build_report sample_loads ''libpq5'' ''9.6.10'' [no_id_doc] None True"
  have th: "isl ?b = isl (build_runtime_context None)
    \<and> (\<forall>r. ?b = Inr r \<longrightarrow>
          status r = ''VULNERABLE'' \<and>
          unique_vuln_count r = 0 \<and>
          severities_found r = [] \<and>
          all_vulnerabilities r = [] \<and>
          report_summary_text r =
            ''libpq5'' @ ''@'' @ ''9.6.10''
              @ '' has 0 known issues. Consider updating to a patched version.'')"
    by (rule no_usable_ids_vulnerable) (simp_all add: no_id_doc_cve)
  have r: "\<not> isl ?b"
    using th by (simp add: missing_runtime_context)
  then have "?b = Inr (projr ?b)" by simp
  with th r show ?thesis by simp
qed

lemma clean_doc_cve: "metadata clean_doc ''cve_id'' = Some ''N/A''"
  by (simp add: clean_doc_def doc_of_def)

lemma critical_doc_cve: "metadata critical_doc ''cve_id'' = Some ''CVE-2018-1115''"
  by (simp add: critical_doc_def doc_of_def)

lemma mixed_docs_normalized:
  "format_docs sample_loads [clean_doc, critical_doc] = [vuln_of_doc sample_loads critical_doc]"
  by (simp add: format_docs_def clean_doc_cve critical_doc_cve vuln_of_doc_def)

lemma critical_doc_severity: "severity (vuln_of_doc sample_loads critical_doc) = Some ''CRITICAL''"
  by (simp add: vuln_of_doc_def make_vuln_def critical_doc_def doc_of_def)

text \<open>
  C3 at the failing input: the name-only tier returns the clean sentinel of one version
  of the package and a vulnerability record of another. The claim makes the status
  \<^verbatim>\<open>CLEAN\<close> only when the normalized list is empty; the code tests the sentinel
  alone, and returns \<^verbatim>\<open>CLEAN\<close> with a count of zero and the summary of no known
  vulnerabilities in a report whose vulnerability list holds the record. Both profiles
  do so.
\<close>

theorem clean_verdict_lists_vulnerabilities:
  "\<not> isl (build_report sample_loads ''libpq5'' ''9.6.10-0+deb9u1''
       [clean_doc, critical_doc] None True) \<and>
   status (projr (build_report sample_loads ''libpq5'' ''9.6.10-0+deb9u1''
     [clean_doc, critical_doc] None True)) = ''CLEAN'' \<and>
   unique_vuln_count (projr (build_report sample_loads ''libpq5'' ''9.6.10-0+deb9u1''
     [clean_doc, critical_doc] None True)) = 0 \<and>
   format_docs sample_loads [clean_doc, critical_doc] = [vuln_of_doc sample_loads critical_doc] \<and>
   all_vulnerabilities (projr (build_report sample_loads ''libpq5'' ''9.6.10-0+deb9u1''
     [clean_doc, critical_doc] None True)) = [vuln_of_doc sample_loads critical_doc] \<and>
   report_summary_text (projr (build_report sample_loads ''libpq5'' ''9.6.10-0+deb9u1''
     [clean_doc, critical_doc] None True)) =
     ''Good news! libpq5@9.6.10-0+deb9u1 looks safe '' @ em_dash
       @ '' no known vulnerabilities found.'' \<and>
   sr_status (build_report_simple sample_loads ''libpq5'' ''9.6.10-0+deb9u1''
     [clean_doc, critical_doc]) = ''CLEAN'' \<and>
   sr_all_vulnerabilities (build_report_simple sample_loads ''libpq5'' ''9.6.10-0+deb9u1''
     [clean_doc, critical_doc]) = [vuln_of_doc sample_loads critical_doc]"
  unfolding build_report_def missing_runtime_context
  by (simp add: report_with_def build_report_simple_def Let_def mixed_docs_normalized
      is_clean_doc_def clean_doc_cve summary_text_def)

text \<open>
  The exploitable list of any report: computed from the vulnerabilities the report
  retains, when a web port is exposed; its length is the exploitable count.
\<close>

lemma exploitable_of_report:
  "exploitable_vulnerabilities (runtime_exposure (report_with jl pkg ver docs exact rc)) =
     (if is_exposed rc
      then map cve_id (filter critical_or_high
             (all_vulnerabilities (report_with jl pkg ver docs exact rc)))
      else [])
   \<and> exploitable_count (report_with jl pkg ver docs exact rc) =
       length (exploitable_vulnerabilities
                 (runtime_exposure (report_with jl pkg ver docs exact rc)))"
  by (simp add: report_with_def Let_def exploitable_of_def split: prod.splits)

text \<open>
  C2 at the failing input: the name-only tier returns the clean sentinel of one version
  and a \<^verbatim>\<open>CRITICAL\<close> record of another, and port 80 serves HTTP. The report is
  \<^verbatim>\<open>CLEAN\<close> with a vulnerability count of zero and the safe summary, and yet lists
  one exploitable vulnerability.
\<close>

theorem clean_report_counts_exploitable:
  "\<not> isl (build_report sample_loads ''libpq5'' ''9.6.10-0+deb9u1''
       [clean_doc, critical_doc] (Some web_runtime) True) \<and>
   status (projr (build_report sample_loads ''libpq5'' ''9.6.10-0+deb9u1''
     [clean_doc, critical_doc] (Some web_runtime) True)) = ''CLEAN'' \<and>
   unique_vuln_count (projr (build_report sample_loads ''libpq5'' ''9.6.10-0+deb9u1''
     [clean_doc, critical_doc] (Some web_runtime) True)) = 0 \<and>
   is_exposed (runtime_exposure (projr (build_report sample_loads ''libpq5'' ''9.6.10-0+deb9u1''
     [clean_doc, critical_doc] (Some web_runtime) True))) \<and>
   exploitable_vulnerabilities (runtime_exposure (projr (build_report sample_loads ''libpq5''
     ''9.6.10-0+deb9u1'' [clean_doc, critical_doc] (Some web_runtime) True))) =
     [''CVE-2018-1115''] \<and>
   exploitable_count (projr (build_report sample_loads ''libpq5'' ''9.6.10-0+deb9u1''
     [clean_doc, critical_doc] (Some web_runtime) True)) = 1 \<and>
   report_summary_text (projr (build_report sample_loads ''libpq5'' ''9.6.10-0+deb9u1''
     [clean_doc, critical_doc] (Some web_runtime) True)) =
     ''Good news! libpq5@9.6.10-0+deb9u1 looks safe '' @ em_dash
       @ '' no known vulnerabilities found.''"
  unfolding build_report_def web_runtime_context
  by (simp add: report_with_def Let_def mixed_docs_normalized is_clean_doc_def clean_doc_cve
      exploitable_of_def critical_or_high_def critical_doc_severity cve_id_vuln_of_doc
      critical_doc_cve summary_text_def)

subsection \<open>Similarity search adapter\<close>

lemma tier_docs_Cons: "tier_docs res = d # ds \<longleftrightarrow> res = Inr (d # ds)"
  by (cases res) (simp_all add: tier_docs_def)

lemma tier_docs_Nil: "tier_docs res = [] \<longleftrightarrow> (\<exists>exc. res = Inl exc) \<or> res = Inr []"
  by (cases res) (simp_all add: tier_docs_def)

text \<open>The simpler profile returns the raw documents of the first tier that has any.\<close>

lemma similarity_search_simple_chain:
  "similarity_search_simple (Some be) q n v k =
     (if tier_docs (be q k (Some (NameAndVersion n v))) \<noteq> []
      then tier_docs (be q k (Some (NameAndVersion n v)))
      else if tier_docs (be q k (Some (NameOnly n))) \<noteq> []
      then tier_docs (be q k (Some (NameOnly n)))
      else tier_docs (be (n @ '' '' @ v) (min 5 k) None))"
  by (simp add: similarity_search_simple_def tier_docs_def split: sum.splits list.splits)

lemma similarity_search_verified:
  "d \<in> set (fst (similarity_search st q n v k)) \<Longrightarrow> metadata d ''package_name'' = Some n"
  by (auto simp: similarity_search_def verified_docs_def
      split: option.splits sum.splits if_splits)

lemma similarity_search_flag:
  "snd (similarity_search st q n v k) \<longleftrightarrow> fst (similarity_search st q n v k) \<noteq> []"
  by (simp add: similarity_search_def split: option.splits sum.splits)

lemma flaky_tier1:
  "flaky_backend q k (Some (NameAndVersion n v)) = Inl (RuntimeError ''index unreadable'')"
  by (simp add: flaky_backend_def)

lemma flaky_tier2:
  "flaky_backend q k (Some (NameOnly ''libpq5'')) = Inr [clean_doc, critical_doc, high_doc]"
  by (simp add: flaky_backend_def sample_backend_def)

lemma verified_docs_Nil: "verified_docs n [] = []"
  by (simp add: verified_docs_def)

lemma libpq5_docs_verified:
  "verified_docs ''libpq5'' [clean_doc, critical_doc, high_doc] =
     [clean_doc, critical_doc, high_doc]"
  by (simp add: verified_docs_def clean_doc_def critical_doc_def high_doc_def doc_of_def)

text \<open>
  C6, as the code has it. Without a store \<^verbatim>\<open>server.py\<close> returns \<^verbatim>\<open>([], False)\<close>
  and the simpler profile returns \<^verbatim>\<open>[]\<close>. In \<^verbatim>\<open>server.py\<close> an error raised
  by either tier ends the search with \<^verbatim>\<open>([], False)\<close>: after an error in tier 1,
  tier 2 is not consulted. In the simpler profile an error in a tier counts as zero
  results for that tier and the chain goes on to the next tier.
\<close>

theorem search_failure_policy:
  "similarity_search None q n v k = ([], False)
   \<and> (be q k (Some (NameAndVersion n v)) = Inl exc \<longrightarrow>
        similarity_search (Some be) q n v k = ([], False))
   \<and> (be q k (Some (NameAndVersion n v)) = Inr docs1 \<and> verified_docs n docs1 = [] \<and>
        be q k (Some (NameOnly n)) = Inl exc \<longrightarrow>
        similarity_search (Some be) q n v k = ([], False))
   \<and> similarity_search_simple None q n v k = []
   \<and> similarity_search_simple (Some be) q n v k =
        (if tier_docs (be q k (Some (NameAndVersion n v))) \<noteq> []
         then tier_docs (be q k (Some (NameAndVersion n v)))
         else if tier_docs (be q k (Some (NameOnly n))) \<noteq> []
         then tier_docs (be q k (Some (NameOnly n)))
         else tier_docs (be (n @ '' '' @ v) (min 5 k) None))"
proof -
  have "similarity_search None q n v k = ([], False)"
    by (simp add: similarity_search_def)
  moreover have "be q k (Some (NameAndVersion n v)) = Inl exc \<longrightarrow>
        similarity_search (Some be) q n v k = ([], False)"
    by (simp add: similarity_search_def)
  moreover have "be q k (Some (NameAndVersion n v)) = Inr docs1 \<and> verified_docs n docs1 = [] \<and>
        be q k (Some (NameOnly n)) = Inl exc \<longrightarrow>
        similarity_search (Some be) q n v k = ([], False)"
    by (simp add: similarity_search_def)
  moreover have "similarity_search_simple None q n v k = []"
    by (simp add: similarity_search_simple_def)
  ultimately show ?thesis
    using similarity_search_simple_chain [of be q n v k] by simp
qed

theorem search_failure_policy_witness:
  "similarity_search None ''status for libpq5 9.6.10'' ''libpq5'' ''9.6.10'' 100 = ([], False)
   \<and> similarity_search (Some flaky_backend) ''status for libpq5 9.6.10'' ''libpq5'' ''9.6.10'' 100
       = ([], False)
   \<and> similarity_search_simple None ''status for libpq5 9.6.10'' ''libpq5'' ''9.6.10'' 100 = []
   \<and> similarity_search_simple (Some flaky_backend) ''status for libpq5 9.6.10''
         ''libpq5'' ''9.6.10'' 100 = [clean_doc, critical_doc, high_doc]"
  using search_failure_policy
          [of "''status for libpq5 9.6.10''" "''libpq5''" "''9.6.10''" 100 flaky_backend
              "RuntimeError ''index unreadable''" "[]"]
  by (simp add: flaky_tier1 flaky_tier2 tier_docs_def)

text \<open>
  C6, as stated, fails on \<^verbatim>\<open>server.py\<close>: the store raises in tier 1 and holds three
  records of the package for tier 2. The code returns \<^verbatim>\<open>([], False)\<close>; treating
  the error as zero results and attempting tier 2 would return the three records.
\<close>

theorem tier1_error_aborts_counterexample:
  "similarity_search (Some flaky_backend) ''status for libpq5 9.6.10'' ''libpq5'' ''9.6.10'' 100
     = ([], False)
   \<and> similarity_search_continuing (Some flaky_backend) ''status for libpq5 9.6.10''
         ''libpq5'' ''9.6.10'' 100 = ([clean_doc, critical_doc, high_doc], True)"
  by (simp add: similarity_search_def similarity_search_continuing_def flaky_tier1 flaky_tier2
      tier_docs_def libpq5_docs_verified verified_docs_Nil Let_def)

text \<open>
  C7, as the code has it. \<^verbatim>\<open>server.py\<close> has tiers 1 and 2 only: every document it
  returns carries the query's \<^verbatim>\<open>package_name\<close>, and \<^verbatim>\<open>is_exact_match\<close> is true
  exactly when tier 1 returned verified documents, or tier 1 returned none and tier 2
  returned some. The simpler profile has the third, unfiltered tier, asked for at most
  \<open>min 5 k\<close> documents; it verifies nothing and returns no flag: the documents of the
  first tier that has any are returned as they are.
\<close>

theorem search_verification:
  "(\<forall>d \<in> set (fst (similarity_search st q n v k)). metadata d ''package_name'' = Some n)
   \<and> (snd (similarity_search st q n v k) \<longleftrightarrow> fst (similarity_search st q n v k) \<noteq> [])
   \<and> (snd (similarity_search (Some be) q n v k) \<longleftrightarrow>
        (\<exists>docs1. be q k (Some (NameAndVersion n v)) = Inr docs1 \<and>
           (verified_docs n docs1 \<noteq> [] \<or>
            (\<exists>docs2. be q k (Some (NameOnly n)) = Inr docs2 \<and> verified_docs n docs2 \<noteq> []))))
   \<and> (be q k (Some (NameAndVersion n v)) = Inr docs1 \<and> verified_docs n docs1 \<noteq> [] \<longrightarrow>
        similarity_search (Some be) q n v k = (verified_docs n docs1, True))
   \<and> (be q k (Some (NameAndVersion n v)) = Inr docs1 \<and> verified_docs n docs1 = [] \<and>
        be q k (Some (NameOnly n)) = Inr docs2 \<and> verified_docs n docs2 \<noteq> [] \<longrightarrow>
        similarity_search (Some be) q n v k = (verified_docs n docs2, True))
   \<and> (be q k (Some (NameAndVersion n v)) = Inr (d # ds) \<longrightarrow>
        similarity_search_simple (Some be) q n v k = d # ds)
   \<and> (tier_docs (be q k (Some (NameAndVersion n v))) = [] \<and>
        be q k (Some (NameOnly n)) = Inr (d # ds) \<longrightarrow>
        similarity_search_simple (Some be) q n v k = d # ds)
   \<and> (tier_docs (be q k (Some (NameAndVersion n v))) = [] \<and>
        tier_docs (be q k (Some (NameOnly n))) = [] \<longrightarrow>
        similarity_search_simple (Some be) q n v k =
          tier_docs (be (n @ '' '' @ v) (min 5 k) None))"
proof -
  have flag: "snd (similarity_search (Some be) q n v k) \<longleftrightarrow>
        (\<exists>docs1. be q k (Some (NameAndVersion n v)) = Inr docs1 \<and>
           (verified_docs n docs1 \<noteq> [] \<or>
            (\<exists>docs2. be q k (Some (NameOnly n)) = Inr docs2 \<and> verified_docs n docs2 \<noteq> [])))"
    by (auto simp: similarity_search_def split: sum.splits)
  have t1: "be q k (Some (NameAndVersion n v)) = Inr docs1 \<and> verified_docs n docs1 \<noteq> [] \<longrightarrow>
        similarity_search (Some be) q n v k = (verified_docs n docs1, True)"
    by (simp add: similarity_search_def)
  have t2: "be q k (Some (NameAndVersion n v)) = Inr docs1 \<and> verified_docs n docs1 = [] \<and>
        be q k (Some (NameOnly n)) = Inr docs2 \<and> verified_docs n docs2 \<noteq> [] \<longrightarrow>
        similarity_search (Some be) q n v k = (verified_docs n docs2, True)"
    by (simp add: similarity_search_def)
  have s1: "be q k (Some (NameAndVersion n v)) = Inr (d # ds) \<longrightarrow>
        similarity_search_simple (Some be) q n v k = d # ds"
    by (simp add: similarity_search_simple_chain tier_docs_def)
  have s2: "tier_docs (be q k (Some (NameAndVersion n v))) = [] \<and>
        be q k (Some (NameOnly n)) = Inr (d # ds) \<longrightarrow>
        similarity_search_simple (Some be) q n v k = d # ds"
    by (simp add: similarity_search_simple_chain) (simp add: tier_docs_def)
  have s3: "tier_docs (be q k (Some (NameAndVersion n v))) = [] \<and>
        tier_docs (be q k (Some (NameOnly n))) = [] \<longrightarrow>
        similarity_search_simple (Some be) q n v k =
          tier_docs (be (n @ '' '' @ v) (min 5 k) None)"
    by (simp add: similarity_search_simple_chain)
  have ver: "\<forall>d \<in> set (fst (similarity_search st q n v k)).
               metadata d ''package_name'' = Some n"
    using similarity_search_verified by blast
  have fl: "snd (similarity_search st q n v k) \<longleftrightarrow> fst (similarity_search st q n v k) \<noteq> []"
    by (rule similarity_search_flag)
  show ?thesis
    by (intro conjI ver fl flag t1 t2 s1 s2 s3)
qed

lemma sample_tier1_zlib: "sample_backend q k (Some (NameAndVersion ''zlib1g'' ''1.2.8'')) = Inr []"
  by (simp add: sample_backend_def)

lemma sample_tier2_zlib: "sample_backend q k (Some (NameOnly ''zlib1g'')) = Inr [bare_doc]"
  by (simp add: sample_backend_def)

lemma bare_doc_verified: "verified_docs ''zlib1g'' [bare_doc] = [bare_doc]"
  by (simp add: verified_docs_def bare_doc_def doc_of_def)

theorem search_verification_witness:
  "similarity_search (Some sample_backend) ''status for zlib1g 1.2.8'' ''zlib1g'' ''1.2.8'' 100
     = ([bare_doc], True)
   \<and> metadata bare_doc ''package_name'' = Some ''zlib1g''
   \<and> similarity_search_simple (Some sample_backend) ''status for zlib1g 1.2.8''
        ''zlib1g'' ''1.2.8'' 100 = [bare_doc]"
proof -
  note th = search_verification
    [of "Some sample_backend" "''status for zlib1g 1.2.8''" "''zlib1g''" "''1.2.8''" 100
        sample_backend "[]" "[bare_doc]" bare_doc "[]"]
  have a: "similarity_search (Some sample_backend) ''status for zlib1g 1.2.8''
             ''zlib1g'' ''1.2.8'' 100 = ([bare_doc], True)"
    using th [THEN conjunct2, THEN conjunct2, THEN conjunct2, THEN conjunct2, THEN conjunct1]
    by (simp add: sample_tier1_zlib sample_tier2_zlib bare_doc_verified verified_docs_Nil)
  have b: "metadata bare_doc ''package_name'' = Some ''zlib1g''"
    using th [THEN conjunct1] unfolding a by simp
  have c: "similarity_search_simple (Some sample_backend) ''status for zlib1g 1.2.8''
             ''zlib1g'' ''1.2.8'' 100 = [bare_doc]"
    using th [THEN conjunct2, THEN conjunct2, THEN conjunct2, THEN conjunct2, THEN conjunct2,
              THEN conjunct2, THEN conjunct1]
    by (simp add: sample_tier1_zlib sample_tier2_zlib tier_docs_def)
  from a b c show ?thesis by simp
qed

lemma sample_nginx:
  "sample_backend q k (Some (NameAndVersion ''nginx'' ''1.0'')) = Inr []"
  "sample_backend q k (Some (NameOnly ''nginx'')) = Inr []"
  "sample_backend q k None = Inr [openssl_doc]"
  by (simp_all add: sample_backend_def)

lemma openssl_doc_meta:
  "metadata openssl_doc ''package_name'' = Some ''openssl''"
  "metadata openssl_doc ''cve_id'' = Some ''CVE-2014-0160''"
  by (simp_all add: openssl_doc_def doc_of_def)

text \<open>
  C7, as stated, fails on the simpler profile, the only one with a tier 3: for a package
  the store does not hold, the unfiltered tier returns a record of another package; it
  is kept, and the report built from it is \<^verbatim>\<open>VULNERABLE\<close>.
\<close>

theorem broad_search_unverified_counterexample:
  "similarity_search_simple (Some sample_backend) ''status for nginx 1.0'' ''nginx'' ''1.0'' 100
     = [openssl_doc]
   \<and> metadata openssl_doc ''package_name'' \<noteq> Some ''nginx''
   \<and> sr_status (build_report_simple sample_loads ''nginx'' ''1.0''
        (similarity_search_simple (Some sample_backend) ''status for nginx 1.0''
           ''nginx'' ''1.0'' 100)) = ''VULNERABLE''
   \<and> sr_unique_vuln_count (build_report_simple sample_loads ''nginx'' ''1.0''
        (similarity_search_simple (Some sample_backend) ''status for nginx 1.0''
           ''nginx'' ''1.0'' 100)) = 1"
proof -
  have s: "similarity_search_simple (Some sample_backend) ''status for nginx 1.0''
             ''nginx'' ''1.0'' 100 = [openssl_doc]"
    by (simp add: similarity_search_simple_def sample_nginx)
  have f: "format_docs sample_loads [openssl_doc] = [vuln_of_doc sample_loads openssl_doc]"
    by (simp add: format_docs_def openssl_doc_meta vuln_of_doc_def)
  show ?thesis
    unfolding s
    by (simp add: openssl_doc_meta build_report_simple_def Let_def f is_clean_doc_def)
qed


subsection \<open>Narrative prompt and text generation\<close>

lemma vuln_lines_raises:
  "\<exists>v \<in> set vs. description v = None \<Longrightarrow> vuln_lines vs = Inl TypeError"
proof (induction vs)
  case Nil
  then show ?case by simp
next
  case (Cons a vs)
  show ?case
  proof (cases "description a")
    case None
    then show ?thesis by (simp add: vuln_line_def)
  next
    case (Some desc)
    with Cons.prems have "\<exists>v \<in> set vs. description v = None" by auto
    with Cons.IH have "vuln_lines vs = Inl TypeError" by simp
    with Some show ?thesis by (simp add: vuln_line_def)
  qed
qed

lemma vuln_lines_returns:
  "\<forall>v \<in> set vs. description v \<noteq> None \<Longrightarrow> \<exists>ls. vuln_lines vs = Inr ls"
  by (induction vs) (auto simp: vuln_line_def split: option.splits sum.splits)

lemma build_llm_prompt_raises:
  "\<exists>v \<in> set (take 3 (all_vulnerabilities r)). description v = None \<Longrightarrow>
   build_llm_prompt r = Inl TypeError"
  by (simp add: build_llm_prompt_def Let_def vuln_lines_raises)

lemma build_llm_prompt_returns:
  assumes "\<forall>v \<in> set (take 3 (all_vulnerabilities r)). description v \<noteq> None"
  shows "\<exists>prompt. build_llm_prompt r = Inr prompt"
proof -
  from vuln_lines_returns [OF assms] obtain ls
    where "vuln_lines (take 3 (all_vulnerabilities r)) = Inr ls" ..
  then show ?thesis
    by (simp add: build_llm_prompt_def Let_def)
qed

text \<open>A pipeline that raises makes \<^verbatim>\<open>invoke\<close> return its second sentinel.\<close>

lemma invoke_raises:
  "enabled l \<Longrightarrow> pipeline l = Some pl \<Longrightarrow> pl prompt (temperature l > 0) = Inl exc \<Longrightarrow>
   invoke l prompt = ''LLM invocation failed''"
  by (simp add: invoke_def)

lemma invoke_unavailable:
  "\<not> enabled l \<or> pipeline l = None \<Longrightarrow> invoke l prompt = ''LLM unavailable''"
  by (auto simp: invoke_def)

subsection \<open>Batch orchestrator\<close>

text \<open>
  The loop body raises exactly when the report cannot be built, or the prompt is built
  and building it raises. What the model does is not among the causes.
\<close>

lemma process_package_isl:
  "isl (process_package e d summarize p) \<longleftrightarrow>
     isl (package_report e d p) \<or>
     (summarize \<and> isl (build_llm_prompt (projr (package_report e d p))))"
  by (auto simp: process_package_def Let_def split: sum.splits)

lemma process_package_returns:
  assumes "package_report e d p = Inr r"
    and "\<not> summarize \<or> (\<forall>v \<in> set (take 3 (all_vulnerabilities r)). description v \<noteq> None)"
  shows "\<exists>x. process_package e d summarize p = Inr x \<and>
             structured_report x = r \<and> ps_status x = status r"
proof (cases summarize)
  case False
  with assms(1) show ?thesis by (simp add: process_package_def Let_def)
next
  case True
  with assms(2) build_llm_prompt_returns obtain prompt
    where "build_llm_prompt r = Inr prompt" by blast
  with True assms(1) show ?thesis by (simp add: process_package_def Let_def)
qed

lemma process_package_raises:
  "package_report e d p = Inr r \<Longrightarrow> summarize \<Longrightarrow>
   \<exists>v \<in> set (take 3 (all_vulnerabilities r)). description v = None \<Longrightarrow>
   process_package e d summarize p = Inl TypeError"
  by (simp add: process_package_def Let_def build_llm_prompt_raises)

lemma process_package_projr:
  assumes "\<not> isl (process_package e d s p)"
  shows "\<not> isl (package_report e d p) \<and>
         ps_status (projr (process_package e d s p)) = status (projr (package_report e d p)) \<and>
         structured_report (projr (process_package e d s p)) = projr (package_report e d p)"
  using assms
  by (auto simp: process_package_def Let_def split: sum.splits if_splits)

lemma package_report_llm: "package_report (e\<lparr>llm := l\<rparr>) d p = package_report e d p"
  by (simp add: package_report_def)

lemma process_all_returns:
  "\<forall>p \<in> set ps. \<not> isl (process_package e d s p) \<Longrightarrow>
   process_all e d s ps acc = Inr (acc @ map (\<lambda>p. projr (process_package e d s p)) ps)"
proof (induction ps arbitrary: acc)
  case Nil
  then show ?case by simp
next
  case (Cons p ps)
  then obtain x where x: "process_package e d s p = Inr x"
    by (cases "process_package e d s p") auto
  with Cons show ?case by simp
qed

lemma process_all_raises:
  "\<forall>q \<in> set pre. \<not> isl (process_package e d s q) \<Longrightarrow> process_package e d s p = Inl exc \<Longrightarrow>
   process_all e d s (pre @ p # rest) acc = Inl exc"
proof (induction pre arbitrary: acc)
  case Nil
  then show ?case by simp
next
  case (Cons q pre)
  then obtain x where x: "process_package e d s q = Inr x"
    by (cases "process_package e d s q") auto
  with Cons show ?case by simp
qed

text \<open>The packages processed are a prefix of the input list.\<close>

lemma packages_to_process_prefix:
  "packages_to_process request =
     take (case max_packages (options request) of
             None \<Rightarrow> length (packages request)
           | Some m \<Rightarrow>
               if m = 0 then length (packages request)
               else if 0 < m then nat m
               else length (packages request) - nat (- m))
       (packages request)"
  by (simp add: packages_to_process_def py_prefix_def split: option.splits)

text \<open>
  A search that raised or found nothing gives an \<^verbatim>\<open>UNKNOWN\<close> report without
  vulnerabilities, when the runtime context of the package can be correlated.
\<close>

lemma package_report_unknown:
  assumes "fst (similarity_search (vector_store e) (package_query p)
            (pi_package p) (pi_version p) 100) = []"
    and "\<not> isl (build_runtime_context (Some (package_runtime d p)))"
  shows "\<exists>r. package_report e d p = Inr r \<and> status r = ''UNKNOWN'' \<and>
             all_vulnerabilities r = []"
proof -
  obtain docs exact where s: "similarity_search (vector_store e) (package_query p)
            (pi_package p) (pi_version p) 100 = (docs, exact)"
    by (cases "similarity_search (vector_store e) (package_query p)
            (pi_package p) (pi_version p) 100") auto
  with assms(1) have "docs = []" by simp
  moreover from assms(2) obtain rc
    where "build_runtime_context (Some (package_runtime d p)) = Inr rc"
    by (cases "build_runtime_context (Some (package_runtime d p))") auto
  ultimately show ?thesis
    using s by (simp add: package_report_def build_report_def report_with_def Let_def)
qed

lemma search_raised_empty:
  "st = None \<or>
   (\<exists>be exc. st = Some be \<and>
      (be q k (Some (NameAndVersion n v)) = Inl exc \<or>
       (\<exists>docs1. be q k (Some (NameAndVersion n v)) = Inr docs1 \<and> verified_docs n docs1 = [] \<and>
          be q k (Some (NameOnly n)) = Inl exc))) \<Longrightarrow>
   fst (similarity_search st q n v k) = []"
  by (auto simp: similarity_search_def)

text \<open>
  C8, as the code has it. For a non-empty batch the packages processed are the prefix of
  the input list that \<^verbatim>\<open>max_packages\<close> selects: all of it when the option is unset
  or zero. When no package's processing raises, the response holds one verdict for each
  of them, in input order, each computed from that package alone. The loop has no
  handler: the first exception raised while a package is processed leaves the batch
  call, and no verdict is returned. Errors of the two collaborators stay inside their
  components: whatever the model is and does, a package's processing raises or returns
  as it would with any other model, and with the same report; and a package whose search
  met a missing store or a backend error in either tier is reported \<^verbatim>\<open>UNKNOWN\<close>
  whenever its runtime context can be correlated.
\<close>

theorem batch_processing:
  fixes e :: env and request :: analysis_request
  defines "n \<equiv> (case max_packages (options request) of
                   None \<Rightarrow> length (packages request)
                 | Some m \<Rightarrow>
                     if m = 0 then length (packages request)
                     else if 0 < m then nat m
                     else length (packages request) - nat (- m))"
    and "d \<equiv> runtime_defaults request"
    and "s \<equiv> summarize_with_llm (options request)"
  assumes "packages request \<noteq> []"
  shows "((\<forall>p \<in> set (take n (packages request)). \<not> isl (process_package e d s p)) \<longrightarrow>
            analyze_packages e request =
              Inr \<lparr> resp_target = target request, resp_model = info (llm e),
                    resp_packages =
                      map (\<lambda>p. projr (process_package e d s p)) (take n (packages request)) \<rparr>)
    \<and> (\<forall>pre p rest exc.
          take n (packages request) = pre @ p # rest \<and>
          (\<forall>q \<in> set pre. \<not> isl (process_package e d s q)) \<and>
          process_package e d s p = Inl exc \<longrightarrow>
          analyze_packages e request = Inl exc)
    \<and> (\<forall>l p. isl (process_package (e\<lparr>llm := l\<rparr>) d s p) = isl (process_package e d s p) \<and>
              (\<not> isl (process_package e d s p) \<longrightarrow>
                 structured_report (projr (process_package (e\<lparr>llm := l\<rparr>) d s p)) =
                 structured_report (projr (process_package e d s p))))
    \<and> (\<forall>p. (vector_store e = None \<or>
              (\<exists>be exc. vector_store e = Some be \<and>
                 (be (package_query p) 100
                     (Some (NameAndVersion (pi_package p) (pi_version p))) = Inl exc \<or>
                  (\<exists>docs1. be (package_query p) 100
                       (Some (NameAndVersion (pi_package p) (pi_version p))) = Inr docs1 \<and>
                     verified_docs (pi_package p) docs1 = [] \<and>
                     be (package_query p) 100 (Some (NameOnly (pi_package p))) = Inl exc)))) \<and>
             \<not> isl (build_runtime_context (Some (package_runtime d p))) \<longrightarrow>
             (\<exists>x. process_package e d s p = Inr x \<and> ps_status x = ''UNKNOWN''))"
proof -
  have ps: "packages_to_process request = take n (packages request)"
    unfolding n_def by (rule packages_to_process_prefix)
  have ok: "(\<forall>p \<in> set (take n (packages request)). \<not> isl (process_package e d s p)) \<longrightarrow>
            analyze_packages e request =
              Inr \<lparr> resp_target = target request, resp_model = info (llm e),
                    resp_packages =
                      map (\<lambda>p. projr (process_package e d s p)) (take n (packages request)) \<rparr>"
    using assms(4)
    by (simp add: analyze_packages_def ps d_def s_def process_all_returns)
  have raises: "\<forall>pre p rest exc.
          take n (packages request) = pre @ p # rest \<and>
          (\<forall>q \<in> set pre. \<not> isl (process_package e d s q)) \<and>
          process_package e d s p = Inl exc \<longrightarrow>
          analyze_packages e request = Inl exc"
  proof (intro allI impI)
    fix pre p rest exc
    assume a: "take n (packages request) = pre @ p # rest \<and>
          (\<forall>q \<in> set pre. \<not> isl (process_package e d s q)) \<and>
          process_package e d s p = Inl exc"
    then have "process_all e d s (take n (packages request)) [] = Inl exc"
      using process_all_raises [of pre e d s p exc rest "[]"] by simp
    then show "analyze_packages e request = Inl exc"
      using assms(4) by (simp add: analyze_packages_def ps d_def s_def)
  qed
  have model: "\<forall>l p. isl (process_package (e\<lparr>llm := l\<rparr>) d s p) = isl (process_package e d s p) \<and>
              (\<not> isl (process_package e d s p) \<longrightarrow>
                 structured_report (projr (process_package (e\<lparr>llm := l\<rparr>) d s p)) =
                 structured_report (projr (process_package e d s p)))"
  proof (intro allI conjI impI)
    fix l p
    show i: "isl (process_package (e\<lparr>llm := l\<rparr>) d s p) = isl (process_package e d s p)"
      by (simp add: process_package_isl package_report_llm)
    assume r: "\<not> isl (process_package e d s p)"
    with i have "\<not> isl (process_package (e\<lparr>llm := l\<rparr>) d s p)" by simp
    from process_package_projr [OF this] process_package_projr [OF r]
    show "structured_report (projr (process_package (e\<lparr>llm := l\<rparr>) d s p)) =
          structured_report (projr (process_package e d s p))"
      by (simp add: package_report_llm)
  qed
  have search: "\<forall>p. (vector_store e = None \<or>
              (\<exists>be exc. vector_store e = Some be \<and>
                 (be (package_query p) 100
                     (Some (NameAndVersion (pi_package p) (pi_version p))) = Inl exc \<or>
                  (\<exists>docs1. be (package_query p) 100
                       (Some (NameAndVersion (pi_package p) (pi_version p))) = Inr docs1 \<and>
                     verified_docs (pi_package p) docs1 = [] \<and>
                     be (package_query p) 100 (Some (NameOnly (pi_package p))) = Inl exc)))) \<and>
             \<not> isl (build_runtime_context (Some (package_runtime d p))) \<longrightarrow>
             (\<exists>x. process_package e d s p = Inr x \<and> ps_status x = ''UNKNOWN'')"
  proof (intro allI impI)
    fix p :: package_input
    assume a: "(vector_store e = None \<or>
              (\<exists>be exc. vector_store e = Some be \<and>
                 (be (package_query p) 100
                     (Some (NameAndVersion (pi_package p) (pi_version p))) = Inl exc \<or>
                  (\<exists>docs1. be (package_query p) 100
                       (Some (NameAndVersion (pi_package p) (pi_version p))) = Inr docs1 \<and>
                     verified_docs (pi_package p) docs1 = [] \<and>
                     be (package_query p) 100 (Some (NameOnly (pi_package p))) = Inl exc)))) \<and>
             \<not> isl (build_runtime_context (Some (package_runtime d p)))"
    then have "fst (similarity_search (vector_store e) (package_query p)
            (pi_package p) (pi_version p) 100) = []"
      by (intro search_raised_empty) blast
    with a obtain r where r: "package_report e d p = Inr r" "status r = ''UNKNOWN''"
      "all_vulnerabilities r = []"
      using package_report_unknown by blast
    then have "\<not> s \<or> (\<forall>v \<in> set (take 3 (all_vulnerabilities r)). description v \<noteq> None)"
      by simp
    from process_package_returns [OF r(1) this] r(2)
    show "\<exists>x. process_package e d s p = Inr x \<and> ps_status x = ''UNKNOWN''"
      by auto
  qed
  show ?thesis
    by (intro conjI ok raises model search)
qed

lemma sample_libpq5:
  "sample_backend q k (Some (NameAndVersion ''libpq5'' ''9.6.10-0+deb9u1'')) = Inr [clean_doc]"
  by (simp add: sample_backend_def)

lemma clean_doc_verified: "verified_docs ''libpq5'' [clean_doc] = [clean_doc]"
  by (simp add: verified_docs_def clean_doc_def doc_of_def)

lemma clean_only_normalized: "format_docs jl [clean_doc] = []"
  by (simp add: format_docs_def clean_doc_cve)

lemma plain_package_runtime: "package_runtime None (package_of n v) = empty_runtime_data"
  by (simp add: package_runtime_def package_of_def runtime_or_empty_def)

lemma libpq5_report:
  assumes "vector_store e = Some sample_backend"
  shows "\<exists>r. package_report e None (package_of ''libpq5'' ''9.6.10-0+deb9u1'') = Inr r \<and>
             status r = ''CLEAN'' \<and> all_vulnerabilities r = []"
  using assms
  by (simp add: package_report_def plain_package_runtime empty_runtime_context build_report_def)
     (simp add: package_of_def similarity_search_def sample_libpq5 clean_doc_verified
      report_with_def Let_def clean_only_normalized is_clean_doc_def clean_doc_cve)

lemma nginx_search:
  "similarity_search (Some sample_backend) q ''nginx'' ''1.0'' k = ([], False)"
  by (simp add: similarity_search_def sample_nginx verified_docs_Nil)

lemma nginx_report:
  assumes "vector_store e = Some sample_backend"
  shows "\<exists>r. package_report e None (package_of ''nginx'' ''1.0'') = Inr r \<and>
             status r = ''UNKNOWN'' \<and> all_vulnerabilities r = [] \<and>
             report_summary_text r =
               ''nginx@1.0 wasn't found in our vulnerability database.''
                 @ '' This is likely a system package or internal dependency.''"
  using assms
  by (simp add: package_report_def plain_package_runtime empty_runtime_context build_report_def)
     (simp add: package_of_def nginx_search report_with_def Let_def summary_text_def)

lemma bare_doc_meta:
  "metadata bare_doc ''cve_id'' = Some ''CVE-2016-9841''"
  "metadata bare_doc ''description'' = None"
  by (simp_all add: bare_doc_def doc_of_def)

lemma zlib_search:
  "similarity_search (Some sample_backend) q ''zlib1g'' ''1.2.8'' k = ([bare_doc], True)"
  by (simp add: similarity_search_def sample_tier1_zlib sample_tier2_zlib bare_doc_verified
      verified_docs_Nil)

lemma zlib_report:
  assumes "vector_store e = Some sample_backend"
  shows "\<exists>r. package_report e None (package_of ''zlib1g'' ''1.2.8'') = Inr r \<and>
             all_vulnerabilities r = [make_vuln (loads e) ''CVE-2016-9841'' bare_doc]"
proof -
  have f: "format_docs (loads e) [bare_doc] = [make_vuln (loads e) ''CVE-2016-9841'' bare_doc]"
    by (simp add: format_docs_def bare_doc_meta)
  show ?thesis
    using assms
    by (simp add: package_report_def plain_package_runtime empty_runtime_context
        build_report_def)
       (simp add: package_of_def zlib_search report_with_def Let_def f is_clean_doc_def
        bare_doc_meta)
qed

lemma sample_request_fields:
  "packages (request_of ps) = ps"
  "packages_to_process (request_of ps) = ps"
  "runtime_defaults (request_of ps) = None"
  "summarize_with_llm (options (request_of ps)) = True"
  "max_packages (options (request_of ps)) = None"
  by (simp_all add: request_of_def packages_to_process_def)

lemma sample_env_fields:
  "vector_store sample_env = Some sample_backend"
  "vector_store failing_llm_env = Some sample_backend"
  "llm failing_llm_env = failing_llm"
  by (simp_all add: sample_env_def failing_llm_env_def)

lemma libpq5_returns:
  "\<not> isl (process_package sample_env None True (package_of ''libpq5'' ''9.6.10-0+deb9u1''))"
proof -
  from libpq5_report [of sample_env] obtain r
    where r: "package_report sample_env None (package_of ''libpq5'' ''9.6.10-0+deb9u1'') = Inr r"
      "all_vulnerabilities r = []"
    by (auto simp: sample_env_fields)
  have "\<exists>x. process_package sample_env None True (package_of ''libpq5'' ''9.6.10-0+deb9u1'') = Inr x \<and>
             structured_report x = r \<and> ps_status x = status r"
    by (rule process_package_returns [OF r(1)]) (simp add: r(2))
  then show ?thesis by auto
qed

lemma nginx_returns:
  "\<not> isl (process_package sample_env None True (package_of ''nginx'' ''1.0''))"
proof -
  from nginx_report [of sample_env] obtain r
    where r: "package_report sample_env None (package_of ''nginx'' ''1.0'') = Inr r"
      "all_vulnerabilities r = []"
    by (auto simp: sample_env_fields)
  have "\<exists>x. process_package sample_env None True (package_of ''nginx'' ''1.0'') = Inr x \<and>
             structured_report x = r \<and> ps_status x = status r"
    by (rule process_package_returns [OF r(1)]) (simp add: r(2))
  then show ?thesis by auto
qed

lemma zlib_raises:
  "process_package sample_env None True (package_of ''zlib1g'' ''1.2.8'') = Inl TypeError"
proof -
  from zlib_report [of sample_env] obtain r
    where r: "package_report sample_env None (package_of ''zlib1g'' ''1.2.8'') = Inr r"
      "all_vulnerabilities r = [make_vuln (loads sample_env) ''CVE-2016-9841'' bare_doc]"
    by (auto simp: sample_env_fields)
  show ?thesis
    by (rule process_package_raises [OF r(1)])
      (simp_all add: r(2) make_vuln_def bare_doc_meta)
qed

theorem batch_processing_witness:
  "packages ((request_of [package_of ''libpq5'' ''9.6.10-0+deb9u1'', package_of ''nginx'' ''1.0'',
                package_of ''zlib1g'' ''1.2.8''])
              \<lparr> options := \<lparr> summarize_with_llm = True, max_packages = Some 2 \<rparr> \<rparr>) \<noteq> []
   \<and> verdict_statuses (analyze_packages sample_env
        ((request_of [package_of ''libpq5'' ''9.6.10-0+deb9u1'', package_of ''nginx'' ''1.0'',
                package_of ''zlib1g'' ''1.2.8''])
              \<lparr> options := \<lparr> summarize_with_llm = True, max_packages = Some 2 \<rparr> \<rparr>))
     = Inr [''CLEAN'', ''UNKNOWN'']"
proof -
  let ?a = "package_of ''libpq5'' ''9.6.10-0+deb9u1''"
  let ?b = "package_of ''nginx'' ''1.0''"
  let ?z = "package_of ''zlib1g'' ''1.2.8''"
  let ?R = "(request_of [?a, ?b, ?z])
              \<lparr> options := \<lparr> summarize_with_llm = True, max_packages = Some 2 \<rparr> \<rparr>"
  have ne: "packages ?R \<noteq> []"
    by (simp add: request_of_def)
  have f: "packages ?R = [?a, ?b, ?z]" "max_packages (options ?R) = Some 2"
    "runtime_defaults ?R = None" "summarize_with_llm (options ?R) = True"
    by (simp_all add: request_of_def)
  have "analyze_packages sample_env ?R =
          Inr \<lparr> resp_target = target ?R, resp_model = info (llm sample_env),
                resp_packages = map (\<lambda>p. projr (process_package sample_env None True p)) [?a, ?b] \<rparr>"
    using batch_processing [OF ne, of sample_env, THEN conjunct1] libpq5_returns nginx_returns
    by (simp add: f)
  moreover have "ps_status (projr (process_package sample_env None True ?a)) = ''CLEAN''"
    using process_package_projr [OF libpq5_returns] libpq5_report [of sample_env]
    by (auto simp: sample_env_fields)
  moreover have "ps_status (projr (process_package sample_env None True ?b)) = ''UNKNOWN''"
    using process_package_projr [OF nginx_returns] nginx_report [of sample_env]
    by (auto simp: sample_env_fields)
  ultimately have "verdict_statuses (analyze_packages sample_env ?R) = Inr [''CLEAN'', ''UNKNOWN'']"
    by (simp add: verdict_statuses_def)
  with ne show ?thesis by simp
qed

text \<open>
  C8, as stated, fails: of three packages the second has a knowledge-base record without
  a description, and the narrative is requested. Building its prompt raises
  \<^verbatim>\<open>TypeError\<close>, which leaves the batch call: no verdict is returned for any
  package.
\<close>

theorem batch_aborts_counterexample:
  "analyze_packages sample_env
     (request_of [package_of ''libpq5'' ''9.6.10-0+deb9u1'', package_of ''zlib1g'' ''1.2.8'',
                  package_of ''nginx'' ''1.0'']) = Inl TypeError"
proof -
  let ?a = "package_of ''libpq5'' ''9.6.10-0+deb9u1''"
  let ?z = "package_of ''zlib1g'' ''1.2.8''"
  let ?b = "package_of ''nginx'' ''1.0''"
  have a: "\<forall>q \<in> set [?a]. \<not> isl (process_package sample_env None True q)"
    by (simp add: libpq5_returns)
  have "process_all sample_env None True ([?a] @ ?z # [?b]) [] = Inl TypeError"
    using a zlib_raises by (rule process_all_raises)
  then show ?thesis
    by (simp add: analyze_packages_def sample_request_fields)
qed

text \<open>
  The runtime context \<^verbatim>\<open>{"network": null}\<close> of one package reaches the correlator
  through the batch call, and its exception leaves the call.
\<close>

lemma null_network_aborts_batch:
  "analyze_packages sample_env
     (request_of [(package_of ''nginx'' ''1.0'')
                    \<lparr> pi_runtime_context := Some null_network_runtime \<rparr>]) = Inl AttributeError"
proof -
  let ?p = "(package_of ''nginx'' ''1.0'') \<lparr> pi_runtime_context := Some null_network_runtime \<rparr>"
  have "build_runtime_context (Some (package_runtime None ?p)) = Inl AttributeError"
    by (simp add: package_runtime_def package_of_def runtime_or_empty_def overlay_def
        null_network_runtime_def build_runtime_context_def network_of_def)
  then have "package_report sample_env None ?p = Inl AttributeError"
    by (simp add: package_report_def build_report_def split: prod.splits)
  then have "process_package sample_env None True ?p = Inl AttributeError"
    by (simp add: process_package_def)
  then show ?thesis
    by (simp add: analyze_packages_def sample_request_fields)
qed

text \<open>
  With the model disabled or not loaded the display text is the deterministic summary.
\<close>

lemma unavailable_keeps_summary:
  assumes "\<not> enabled (llm e) \<or> pipeline (llm e) = None"
    and "process_package e d s p = Inr x"
  shows "llm_summary x = report_summary_text (structured_report x)"
proof -
  have "\<And>prompt. invoke (llm e) prompt = ''LLM unavailable''"
    using assms(1) by (rule invoke_unavailable)
  with assms(2) show ?thesis
    by (auto simp: process_package_def Let_def split: sum.splits if_splits)
qed

text \<open>
  C4 at the failing input: one package, the narrative requested, a loaded model whose
  generation raises. \<^verbatim>\<open>invoke\<close> returns the sentinel \<^verbatim>\<open>"LLM invocation failed"\<close>,
  the batch loop filters only \<^verbatim>\<open>"LLM unavailable"\<close>, and the sentinel becomes the
  display text in place of the deterministic summary.
\<close>

theorem failed_generation_is_displayed:
  "display_texts (analyze_packages failing_llm_env (request_of [package_of ''nginx'' ''1.0'']))
     = Inr [''LLM invocation failed'']
   \<and> summary_texts (analyze_packages failing_llm_env (request_of [package_of ''nginx'' ''1.0'']))
     = Inr [''nginx@1.0 wasn't found in our vulnerability database.''
              @ '' This is likely a system package or internal dependency.'']"
proof -
  let ?b = "package_of ''nginx'' ''1.0''"
  from nginx_report [of failing_llm_env] obtain r
    where r: "package_report failing_llm_env None ?b = Inr r" "all_vulnerabilities r = []"
      "report_summary_text r =
         ''nginx@1.0 wasn't found in our vulnerability database.''
           @ '' This is likely a system package or internal dependency.''"
    by (auto simp: sample_env_fields)
  have "\<forall>v \<in> set (take 3 (all_vulnerabilities r)). description v \<noteq> None"
    by (simp add: r(2))
  from build_llm_prompt_returns [OF this] obtain prompt
    where p: "build_llm_prompt r = Inr prompt" ..
  have i: "invoke failing_llm prompt = ''LLM invocation failed''"
    by (rule invoke_raises [of _ "\<lambda>prompt do_sample. Inl (RuntimeError ''CUDA out of memory'')"])
      (simp_all add: failing_llm_def)
  have "process_package failing_llm_env None True ?b =
          Inr \<lparr> ps_package = package r, ps_version = version r, ps_status = status r,
                ps_unique_vuln_count = unique_vuln_count r,
                ps_severities_found = severities_found r,
                ps_runtime_exposure = runtime_exposure r,
                ps_exploitable_count = exploitable_count r,
                llm_summary = ''LLM invocation failed'', structured_report = r \<rparr>"
    by (simp add: process_package_def Let_def r(1) p i sample_env_fields)
  then show ?thesis
    by (simp add: analyze_packages_def sample_request_fields display_texts_def
        summary_texts_def r(3))
qed


end
